theory Spec2Isabelle
  imports Complex_Main
begin

section \<open>Conventions of the embedding\<close>

text \<open>
  The program is a Telegram bot written in JavaScript: \<^verbatim>\<open>downloader.js\<close> (probe parser,
  format selector, download executor), \<^verbatim>\<open>session-store.js\<close>, \<^verbatim>\<open>queue.js\<close>, \<^verbatim>\<open>config.js\<close>
  and \<^verbatim>\<open>index.js\<close> (the chat handlers).

  \<^item> A JavaScript string is a \<open>string\<close> of ASCII characters; \<open>toLowerCase\<close>, \<open>trim\<close> and
    the regular expressions are modelled on ASCII.
  \<^item> A JavaScript number is a \<open>rat\<close>. Every number the program computes with is a
    decimal read from JSON or from digits of the probe text; on these, and for integers
    below \<open>2^53\<close>, the sums, divisions by 1024 and roundings below are the exact values
    the double arithmetic gives. \<open>null\<close> and \<open>undefined\<close> are \<open>None\<close>.
  \<^item> A handler runs from its first statement to its last without another handler
    running in between (the event loop is single threaded; the interleavings at an
    \<open>await\<close> are left out); calls to the chat platform succeed and their answers
    (message ids) are inputs of the model.
  \<^item> Record fields keep the names of the source, prefixed where the name is taken in
    Isabelle (\<open>id\<close>, \<open>note\<close>, \<open>type\<close>).
\<close>

section \<open>Strings\<close>

definition isDigit :: "char \<Rightarrow> bool" where
  "isDigit c = (c \<in> set ''0123456789'')"

text \<open>The ASCII part of the regular expression class \<^verbatim>\<open>\s\<close> and of \<^verbatim>\<open>trim\<close>.\<close>

definition isSpace :: "char \<Rightarrow> bool" where
  "isSpace c = (c \<in> set [CHR '' '', CHR 0x09, CHR 0x0A, CHR 0x0B, CHR 0x0C, CHR 0x0D])"

definition upperChars :: string where
  "upperChars = ''ABCDEFGHIJKLMNOPQRSTUVWXYZ''"

definition lowerChars :: string where
  "lowerChars = ''abcdefghijklmnopqrstuvwxyz''"

text \<open>The class \<^verbatim>\<open>\w\<close>, which decides the word boundary \<^verbatim>\<open>\b\<close>.\<close>

definition isWordChar :: "char \<Rightarrow> bool" where
  "isWordChar c = (c \<in> set upperChars \<or> c \<in> set lowerChars \<or> isDigit c \<or> c = CHR ''_'')"

definition toLowerChar :: "char \<Rightarrow> char" where
  "toLowerChar c = (case map_of (zip upperChars lowerChars) c of Some l \<Rightarrow> l | None \<Rightarrow> c)"

definition toUpperChar :: "char \<Rightarrow> char" where
  "toUpperChar c = (case map_of (zip lowerChars upperChars) c of Some u \<Rightarrow> u | None \<Rightarrow> c)"

definition toLowerCase :: "string \<Rightarrow> string" where
  "toLowerCase s = map toLowerChar s"

definition toUpperCase :: "string \<Rightarrow> string" where
  "toUpperCase s = map toUpperChar s"

fun startsWith :: "string \<Rightarrow> string \<Rightarrow> bool" where
  "startsWith s [] = True"
| "startsWith [] (p # ps) = False"
| "startsWith (c # cs) (p # ps) = (c = p \<and> startsWith cs ps)"

definition endsWith :: "string \<Rightarrow> string \<Rightarrow> bool" where
  "endsWith s suffix = startsWith (rev s) (rev suffix)"

fun includesStr :: "string \<Rightarrow> string \<Rightarrow> bool" where
  "includesStr [] sub = (sub = [])"
| "includesStr (c # cs) sub = (startsWith (c # cs) sub \<or> includesStr cs sub)"

definition trimStart :: "string \<Rightarrow> string" where
  "trimStart s = dropWhile isSpace s"

definition trimEnd :: "string \<Rightarrow> string" where
  "trimEnd s = rev (dropWhile isSpace (rev s))"

definition trim :: "string \<Rightarrow> string" where
  "trim s = trimEnd (trimStart s)"

text \<open>\<^verbatim>\<open>s.split(sep)\<close> for a one-character separator: never an empty result list.\<close>

fun splitOn :: "char \<Rightarrow> string \<Rightarrow> string list" where
  "splitOn sep [] = [[]]"
| "splitOn sep (c # cs) =
     (if c = sep then [] # splitOn sep cs
      else (case splitOn sep cs of [] \<Rightarrow> [[c]] | w # ws \<Rightarrow> (c # w) # ws))"

text \<open>\<^verbatim>\<open>s.split(/\r?\n/)\<close>: a line ends at a line feed, and a carriage return right
  before the line feed belongs to the separator.\<close>

definition stripCR :: "string \<Rightarrow> string" where
  "stripCR l = (if l \<noteq> [] \<and> last l = CHR 0x0D then butlast l else l)"

definition splitLines :: "string \<Rightarrow> string list" where
  "splitLines s = (let ls = splitOn (CHR 0x0A) s in map stripCR (butlast ls) @ [last ls])"

text \<open>\<^verbatim>\<open>s.split(/\s+/).filter(Boolean)\<close>: the maximal runs of non-space characters.\<close>

function splitWords :: "string \<Rightarrow> string list" where
  "splitWords [] = []"
| "splitWords (c # cs) =
     (if isSpace c then splitWords (dropWhile isSpace cs)
      else (c # takeWhile (\<lambda>d. \<not> isSpace d) cs) # splitWords (dropWhile (\<lambda>d. \<not> isSpace d) cs))"
  by pat_completeness auto
termination
  by (relation "measure length") (auto simp: length_dropWhile_le le_imp_less_Suc)

text \<open>\<^verbatim>\<open>xs.join(sep)\<close>.\<close>

fun joinWith :: "string \<Rightarrow> string list \<Rightarrow> string" where
  "joinWith sep [] = []"
| "joinWith sep [x] = x"
| "joinWith sep (x # y # ys) = x @ sep @ joinWith sep (y # ys)"

section \<open>Numbers and their decimal text\<close>

definition digitVal :: "char \<Rightarrow> nat" where
  "digitVal c = (case map_of (zip ''0123456789'' [0, 1, 2, 3, 4, 5, 6, 7, 8, 9]) c of
                   Some d \<Rightarrow> d | None \<Rightarrow> 0)"

text \<open>\<^verbatim>\<open>Number.parseInt(ds, 10)\<close> on a non-empty string of digits.\<close>

definition parseDigits :: "string \<Rightarrow> nat" where
  "parseDigits ds = foldl (\<lambda>a c. 10 * a + digitVal c) 0 ds"

definition digitChar :: "nat \<Rightarrow> char" where
  "digitChar d = ''0123456789'' ! d"

text \<open>The decimal text of a natural number, as string conversion and template
  literals give it.\<close>

fun showNat :: "nat \<Rightarrow> string" where
  "showNat n = (if n < 10 then [digitChar n] else showNat (n div 10) @ [digitChar (n mod 10)])"

text \<open>\<^verbatim>\<open>Math.round\<close>: the nearest integer, a half rounded up.\<close>

definition mathRound :: "rat \<Rightarrow> int" where
  "mathRound x = \<lfloor>x + 1 / 2\<rfloor>"

text \<open>
  \<^verbatim>\<open>x.toFixed(f)\<close> (ECMAScript, Number.prototype.toFixed, for \<open>\<bar>x\<bar> < 10^21\<close>): the sign,
  then the integer \<open>n\<close> nearest to \<open>\<bar>x\<bar> * 10^f\<close> (the larger one of two), padded with
  zeros to \<open>f + 1\<close> digits and split by a point before its last \<open>f\<close> digits.
\<close>

definition toFixed :: "rat \<Rightarrow> nat \<Rightarrow> string" where
  "toFixed x f =
     (let s = (if x < 0 then ''-'' else '''');
          n = nat \<lfloor>\<bar>x\<bar> * 10 ^ f + 1 / 2\<rfloor>;
          m = showNat n
      in if f = 0 then s @ m
         else (let m' = (if length m \<le> f then replicate (f + 1 - length m) (CHR ''0'') @ m else m);
                   k = length m'
               in s @ take (k - f) m' @ ''.'' @ drop (k - f) m'))"

section \<open>downloader.js: sizes\<close>

definition units :: "string list" where
  "units = [''B'', ''KB'', ''MB'', ''GB'', ''TB'']"

text \<open>The loop of \<^verbatim>\<open>formatBytes\<close>:
  \<^verbatim>\<open>while (value >= 1024 && index < units.length - 1) { value /= 1024; index += 1; }\<close>\<close>

function scaleBytes :: "rat \<Rightarrow> nat \<Rightarrow> rat \<times> nat" where
  "scaleBytes v i =
     (if 1024 \<le> v \<and> i < length units - 1 then scaleBytes (v / 1024) (i + 1) else (v, i))"
  by pat_completeness auto
termination
  by (relation "measure (\<lambda>(v, i). length units - 1 - i)") auto

text \<open>\<^verbatim>\<open>formatBytes(bytes)\<close>; \<open>None\<close> is the \<^verbatim>\<open>null\<close> returned for a falsy argument.\<close>

definition formatBytes :: "rat \<Rightarrow> string option" where
  "formatBytes bytes =
     (if bytes = 0 then None
      else (case scaleBytes bytes 0 of
              (v, i) \<Rightarrow> Some (toFixed v (if 10 \<le> v \<or> i = 0 then 0 else 1) @ units ! i)))"

text \<open>The number of characters after the decimal point of a numeral's text
  (\<open>0\<close> when it has no point).\<close>

definition decimals :: "string \<Rightarrow> nat" where
  "decimals s = length (drop 1 (dropWhile (\<lambda>c. c \<noteq> CHR ''.'') s))"

section \<open>downloader.js: format records\<close>

text \<open>An element of \<^verbatim>\<open>info.formats\<close> in the JSON metadata: the fields the program
  reads. A missing \<^verbatim>\<open>format_id\<close> is the empty string (both are falsy); pixel heights
  are integers.\<close>

record fmtMeta =
  format_id :: string
  filesize :: "rat option"
  filesize_approx :: "rat option"
  abr :: "rat option"
  tbr :: "rat option"
  height :: "nat option"

text \<open>The strings \<^verbatim>\<open>"audio"\<close> and \<^verbatim>\<open>"video"\<close>.\<close>

datatype kind = Audio | Video

definition kindName :: "kind \<Rightarrow> string" where
  "kindName k = (case k of Audio \<Rightarrow> ''audio'' | Video \<Rightarrow> ''video'')"

text \<open>What \<^verbatim>\<open>parseFormatList\<close> pushes for one line of the listing.\<close>

record entry =
  fmt_id :: string
  extension :: string
  resolution :: string
  fmt_note :: string
  raw :: string

text \<open>An element of \<^verbatim>\<open>formats\<close> as \<^verbatim>\<open>listFormats\<close> builds it.\<close>

record format = entry +
  approxSize :: "rat option"
  fmt_type :: kind
  meta :: "fmtMeta option"

text \<open>An element of the selector's result:
  \<^verbatim>\<open>{...fmt, estimatedSizeBytes, displayLabel, targetFileName}\<close>.\<close>

record candidate = format +
  estimatedSizeBytes :: "rat option"
  displayLabel :: string
  targetFileName :: string

text \<open>\<^verbatim>\<open>a || b\<close> on optional numbers: \<open>a\<close> unless it is \<^verbatim>\<open>null\<close>, \<^verbatim>\<open>undefined\<close>
  or \<open>0\<close>.\<close>

definition truthy :: "rat option \<Rightarrow> bool" where
  "truthy a = (case a of None \<Rightarrow> False | Some x \<Rightarrow> x \<noteq> 0)"

definition jsOr :: "rat option \<Rightarrow> rat option \<Rightarrow> rat option" where
  "jsOr a b = (if truthy a then a else b)"

text \<open>\<^verbatim>\<open>a || 0\<close>.\<close>

definition orZero :: "rat option \<Rightarrow> rat" where
  "orZero a = (case a of None \<Rightarrow> 0 | Some x \<Rightarrow> x)"

section \<open>downloader.js: the regular expressions of the selector\<close>

text \<open>
  Each regular expression is a scan for the leftmost start at which it matches. A greedy
  run of digits that must be followed by a non-digit can only be the whole run of digits
  at that start, so a bounded repetition \<^verbatim>\<open>\d{m,n}\<close> is a test on the length of the run.

  \<^verbatim>\<open>/(\d{3,4})[pP]/\<close>: group 1 of the leftmost match.
\<close>

fun matchHeightP :: "string \<Rightarrow> nat option" where
  "matchHeightP [] = None"
| "matchHeightP (c # cs) =
     (let ds = takeWhile isDigit (c # cs); r = dropWhile isDigit (c # cs)
      in if (length ds = 3 \<or> length ds = 4) \<and> r \<noteq> [] \<and> (hd r = CHR ''p'' \<or> hd r = CHR ''P'')
         then Some (parseDigits ds)
         else matchHeightP cs)"

text \<open>\<^verbatim>\<open>/\b(\d{3,4})x(\d{3,4})\b/\<close>: group 2 of the leftmost match. The flag says
  whether the position is at the start or after a non-word character.\<close>

fun matchWxH :: "bool \<Rightarrow> string \<Rightarrow> nat option" where
  "matchWxH b [] = None"
| "matchWxH b (c # cs) =
     (let w = takeWhile isDigit (c # cs); r = dropWhile isDigit (c # cs);
          h = takeWhile isDigit (drop 1 r); r2 = dropWhile isDigit (drop 1 r)
      in if b \<and> (length w = 3 \<or> length w = 4) \<and> r \<noteq> [] \<and> hd r = CHR ''x''
            \<and> (length h = 3 \<or> length h = 4) \<and> (r2 = [] \<or> \<not> isWordChar (hd r2))
         then Some (parseDigits h)
         else matchWxH (\<not> isWordChar c) cs)"

definition parseResolutionHeight :: "string \<Rightarrow> nat" where
  "parseResolutionHeight v =
     (case matchHeightP v of
        Some h \<Rightarrow> h
      | None \<Rightarrow> (case matchWxH True v of Some h \<Rightarrow> h | None \<Rightarrow> 0))"

text \<open>\<^verbatim>\<open>/(\d{2,4})\s*(?:kbps|kb|k\b)/i\<close>: group 1 of the leftmost match. After the
  digits and the spaces comes a \<open>k\<close> followed by a \<open>b\<close> (which covers \<open>kbps\<close> and \<open>kb\<close>) or by
  a word boundary.\<close>

fun extractBitrateFromNote :: "string \<Rightarrow> nat option" where
  "extractBitrateFromNote [] = None"
| "extractBitrateFromNote (c # cs) =
     (let ds = takeWhile isDigit (c # cs); r = dropWhile isSpace (dropWhile isDigit (c # cs));
          t = drop 1 r
      in if 2 \<le> length ds \<and> length ds \<le> 4 \<and> r \<noteq> [] \<and> toLowerChar (hd r) = CHR ''k''
            \<and> (t = [] \<or> toLowerChar (hd t) = CHR ''b'' \<or> \<not> isWordChar (hd t))
         then Some (parseDigits ds)
         else extractBitrateFromNote cs)"

text \<open>\<^verbatim>\<open>/\ben\b/\<close> has a match.\<close>

fun hasWordEn :: "bool \<Rightarrow> string \<Rightarrow> bool" where
  "hasWordEn b [] = False"
| "hasWordEn b (c # cs) =
     ((b \<and> startsWith (c # cs) ''en'' \<and> (drop 1 cs = [] \<or> \<not> isWordChar (hd (drop 1 cs))))
      \<or> hasWordEn (\<not> isWordChar c) cs)"

text \<open>\<^verbatim>\<open>/(english|\ben\b|en-us|en-gb)/.test(note)\<close>.\<close>

definition englishTrack :: "string \<Rightarrow> bool" where
  "englishTrack n = (includesStr n ''english'' \<or> hasWordEn True n
                     \<or> includesStr n ''en-us'' \<or> includesStr n ''en-gb'')"

section \<open>downloader.js: the format selector\<close>

definition presets :: "nat list" where
  "presets = [64, 96, 128, 160, 192, 224, 256, 320]"

text \<open>\<^verbatim>\<open>nearestAudioBitrate(kbps)\<close>; \<^verbatim>\<open>reduce\<close> without a start value begins at the first
  preset.\<close>

definition nearestAudioBitrate :: "int \<Rightarrow> nat option" where
  "nearestAudioBitrate kbps =
     (if kbps = 0 then None
      else Some (foldl (\<lambda>previous current.
                   if \<bar>int current - kbps\<bar> < \<bar>int previous - kbps\<bar> then current else previous)
                 (hd presets) (tl presets)))"

definition estimateAudioSize :: "rat option \<Rightarrow> nat \<Rightarrow> rat option" where
  "estimateAudioSize durationSeconds bitrateKbps =
     (if \<not> truthy durationSeconds \<or> bitrateKbps = 0 then None
      else Some (of_int (mathRound (the durationSeconds * of_nat bitrateKbps * 1000 / 8))))"

text \<open>\<^verbatim>\<open>format.meta?.abr\<close> and \<^verbatim>\<open>format.meta?.tbr\<close>.\<close>

definition metaAbr :: "'a format_scheme \<Rightarrow> rat option" where
  "metaAbr f = (case meta f of None \<Rightarrow> None | Some m \<Rightarrow> abr m)"

definition metaTbr :: "'a format_scheme \<Rightarrow> rat option" where
  "metaTbr f = (case meta f of None \<Rightarrow> None | Some m \<Rightarrow> tbr m)"

definition determineAudioBitrateKbps :: "'a format_scheme \<Rightarrow> nat option" where
  "determineAudioBitrateKbps f =
     (let rawRate = jsOr (metaAbr f)
                      (jsOr (metaTbr f) (map_option of_nat (extractBitrateFromNote (fmt_note f))))
      in if \<not> truthy rawRate then None else nearestAudioBitrate (mathRound (the rawRate)))"

text \<open>The template text of an optional size:
  \<^verbatim>\<open>sizeBytes ? ` (~${formatBytes(sizeBytes)})` : ""\<close>.\<close>

definition sizeText :: "rat option \<Rightarrow> string" where
  "sizeText sizeBytes =
     (if truthy sizeBytes
      then '' (~'' @ (case formatBytes (the sizeBytes) of Some t \<Rightarrow> t | None \<Rightarrow> ''null'') @ '')''
      else [])"

definition createAudioLabel :: "nat \<Rightarrow> rat option \<Rightarrow> string" where
  "createAudioLabel bitrateKbps sizeBytes =
     (let bitrateText = (if bitrateKbps \<noteq> 0 then showNat bitrateKbps @ '' kbps'' else ''MP3'')
      in trim (''MP3 '' @ bitrateText @ sizeText sizeBytes))"

text \<open>\<open>h\<close> is \<open>0\<close> for the \<^verbatim>\<open>null\<close> that \<^verbatim>\<open>height || null\<close> passes.\<close>

definition createVideoLabel :: "nat \<Rightarrow> rat option \<Rightarrow> string" where
  "createVideoLabel h sizeBytes =
     (let quality = (if h \<noteq> 0 then showNat h @ ''p'' else ''Video'')
      in trim (''MP4 '' @ quality @ sizeText sizeBytes))"

definition preferenceScore :: "'a format_scheme \<Rightarrow> kind \<Rightarrow> rat" where
  "preferenceScore f t =
     (let n = toLowerCase (fmt_note f);
          s1 = (if includesStr n ''default'' \<or> includesStr n ''original'' then 10 else 0);
          s2 = (if englishTrack n then 5 else 0)
      in s1 + s2 +
         (if t = Audio then min (orZero (approxSize f) / (5 * 1024 * 1024)) 5
          else min (of_nat (parseResolutionHeight (resolution f)) / 200) 5))"

definition allowedExtensions :: "kind \<Rightarrow> string list" where
  "allowedExtensions t =
     (if t = Audio then [''m4a'', ''mp3'', ''webm'', ''opus'', ''mp4'', ''ogg'']
      else [''mp4'', ''webm'', ''mkv''])"

text \<open>The predicate of \<^verbatim>\<open>formats.filter\<close>.\<close>

definition keepFormat :: "kind \<Rightarrow> format \<Rightarrow> bool" where
  "keepFormat t f =
     (if fmt_type f \<noteq> t then False
      else if toLowerCase (extension f) \<notin> set (allowedExtensions t) then False
      else if t = Video \<and> includesStr (toLowerCase (fmt_note f)) ''video only''
              \<and> \<not> includesStr (fmt_id f) ''+'' then False
      else True)"

text \<open>The number each comparator of \<^verbatim>\<open>filtered.sort\<close> subtracts.\<close>

definition sortKey :: "kind \<Rightarrow> format \<Rightarrow> rat" where
  "sortKey t f =
     (if t = Audio then orZero (jsOr (metaAbr f) (jsOr (metaTbr f) (approxSize f)))
      else of_nat (parseResolutionHeight (resolution f)))"

text \<open>\<^verbatim>\<open>filtered.sort((a, b) => key(b) - key(a))\<close>: the stable sort of
  Array.prototype.sort, descending in the key.\<close>

definition sortFiltered :: "kind \<Rightarrow> format list \<Rightarrow> format list" where
  "sortFiltered t fs = sort_key (\<lambda>f. - sortKey t f) fs"

text \<open>The key of the deduplication loop:
  \<^verbatim>\<open>type === "audio" ? `audio-${bitrateKey || fmt.id}` : fmt.resolution || fmt.id\<close>.\<close>

definition bucketKey :: "kind \<Rightarrow> 'a format_scheme \<Rightarrow> string" where
  "bucketKey t f =
     (if t = Audio
      then ''audio-'' @ (case determineAudioBitrateKbps f of Some b \<Rightarrow> showNat b | None \<Rightarrow> fmt_id f)
      else (if resolution f \<noteq> [] then resolution f else fmt_id f))"

text \<open>One round of the loop over \<^verbatim>\<open>filtered\<close>; the state is \<^verbatim>\<open>deduped\<close> and
  \<^verbatim>\<open>keyToIndex\<close>. An index stored in \<^verbatim>\<open>keyToIndex\<close> is always a position of
  \<^verbatim>\<open>deduped\<close> (the invariant \<open>dedupeInv\<close> below).\<close>

definition dedupeStep ::
  "kind \<Rightarrow> format list \<times> (string \<rightharpoonup> nat) \<Rightarrow> format \<Rightarrow> format list \<times> (string \<rightharpoonup> nat)" where
  "dedupeStep t st f =
     (case st of (deduped, keyToIndex) \<Rightarrow>
        (let key = bucketKey t f
         in case keyToIndex key of
              None \<Rightarrow> (deduped @ [f], keyToIndex(key \<mapsto> length deduped))
            | Some idxExisting \<Rightarrow>
                (let existing = deduped ! idxExisting;
                     candidateScore = preferenceScore f t;
                     existingScore = preferenceScore existing t
                 in if candidateScore > existingScore
                       \<or> (candidateScore = existingScore
                           \<and> orZero (approxSize f) > orZero (approxSize existing))
                    then (deduped[idxExisting := f], keyToIndex)
                    else (deduped, keyToIndex))))"

definition dedupe :: "kind \<Rightarrow> format list \<Rightarrow> format list" where
  "dedupe t filtered = fst (foldl (dedupeStep t) ([], Map.empty) filtered)"

text \<open>The function mapped over \<^verbatim>\<open>deduped.slice(0, 6)\<close>.\<close>

definition decorate :: "kind \<Rightarrow> rat option \<Rightarrow> format \<Rightarrow> candidate" where
  "decorate t durationSeconds f =
     (if t = Audio
      then (let bitrateKbps = (case determineAudioBitrateKbps f of Some b \<Rightarrow> b | None \<Rightarrow> 192);
                estimatedSize = jsOr (estimateAudioSize durationSeconds bitrateKbps) (approxSize f)
            in \<lparr>fmt_id = fmt_id f, extension = extension f, resolution = resolution f,
                fmt_note = fmt_note f, raw = raw f, approxSize = approxSize f,
                fmt_type = fmt_type f, meta = meta f,
                estimatedSizeBytes = (if truthy estimatedSize then estimatedSize else None),
                displayLabel = createAudioLabel bitrateKbps (jsOr estimatedSize (approxSize f)),
                targetFileName = fmt_id f @ ''-audio''\<rparr>)
      else (let h0 = parseResolutionHeight (resolution f);
                h = (if h0 \<noteq> 0 then h0
                     else (case meta f of None \<Rightarrow> 0
                           | Some m \<Rightarrow> (case height m of None \<Rightarrow> 0 | Some mh \<Rightarrow> mh)))
            in \<lparr>fmt_id = fmt_id f, extension = extension f, resolution = resolution f,
                fmt_note = fmt_note f, raw = raw f, approxSize = approxSize f,
                fmt_type = fmt_type f, meta = meta f,
                estimatedSizeBytes = (if truthy (approxSize f) then approxSize f else None),
                displayLabel = createVideoLabel h (approxSize f),
                targetFileName = fmt_id f @ ''-video''\<rparr>))"

text \<open>\<^verbatim>\<open>filterWellKnownFormats(formats, type, { durationSeconds })\<close>, which
  \<^verbatim>\<open>getFormatsByType\<close> exports.\<close>

definition filterWellKnownFormats :: "format list \<Rightarrow> kind \<Rightarrow> rat option \<Rightarrow> candidate list" where
  "filterWellKnownFormats formats t durationSeconds =
     (let filtered = filter (keepFormat t) formats;
          sorted = sortFiltered t filtered;
          deduped = dedupe t sorted
      in map (decorate t durationSeconds) (take 6 deduped))"

definition getFormatsByType :: "format list \<Rightarrow> kind \<Rightarrow> rat option \<Rightarrow> candidate list" where
  "getFormatsByType formats t options = filterWellKnownFormats formats t options"

text \<open>The invariant of the deduplication loop: \<^verbatim>\<open>keyToIndex\<close> maps exactly the keys of
  the entries of \<^verbatim>\<open>deduped\<close>, each to the position of its entry.\<close>

definition dedupeInv :: "kind \<Rightarrow> format list \<times> (string \<rightharpoonup> nat) \<Rightarrow> bool" where
  "dedupeInv t st =
     (case st of (deduped, keyToIndex) \<Rightarrow>
        (\<forall>k i. keyToIndex k = Some i \<longrightarrow> i < length deduped \<and> bucketKey t (deduped ! i) = k)
        \<and> (\<forall>i<length deduped. keyToIndex (bucketKey t (deduped ! i)) = Some i))"

text \<open>The bucket key in the words of the specification, to compare with \<open>bucketKey\<close>: for
  audio the nearest bitrate preset derived from the declared or note-parsed bitrate, for
  video the resolution string, or the id when the resolution is empty.\<close>

definition specBucketKey :: "kind \<Rightarrow> 'a format_scheme \<Rightarrow> nat option + string" where
  "specBucketKey t f =
     (if t = Audio then Inl (determineAudioBitrateKbps f)
      else Inr (if resolution f \<noteq> [] then resolution f else fmt_id f))"

section \<open>downloader.js: the probe parser\<close>

text \<open>\<^verbatim>\<open>/^[-=]+$/.test(trimmed)\<close>.\<close>

definition isSeparatorLine :: "string \<Rightarrow> bool" where
  "isSeparatorLine s = (s \<noteq> [] \<and> list_all (\<lambda>c. c = CHR ''-'' \<or> c = CHR ''='') s)"

text \<open>\<^verbatim>\<open>/^(id|format)\b/i.test(trimmed)\<close>.\<close>

definition isHeaderLine :: "string \<Rightarrow> bool" where
  "isHeaderLine s =
     (let l = toLowerCase s
      in (startsWith l ''id'' \<and> (drop 2 s = [] \<or> \<not> isWordChar (hd (drop 2 s))))
         \<or> (startsWith l ''format'' \<and> (drop 6 s = [] \<or> \<not> isWordChar (hd (drop 6 s)))))"

text \<open>The body of the loop of \<^verbatim>\<open>parseFormatList\<close>: \<open>None\<close> is \<^verbatim>\<open>continue\<close>.\<close>

definition parseLine :: "string \<Rightarrow> entry option" where
  "parseLine line =
     (if line = [] \<or> trim line = [] then None
      else (let trimmed = trimEnd line
            in if isSeparatorLine trimmed \<or> isHeaderLine trimmed then None
               else (case map trim (splitOn (CHR ''|'') trimmed) of
                       [] \<Rightarrow> None
                     | left # segments \<Rightarrow>
                         if left = [] then None
                         else (case splitWords left of
                                 [] \<Rightarrow> None
                               | [p] \<Rightarrow> None
                               | formatId # ext # parts \<Rightarrow>
                                   if formatId = [] \<or> includesStr (toLowerCase trimmed) ''pass''
                                   then None
                                   else Some \<lparr>fmt_id = formatId, extension = ext,
                                              resolution = trim (joinWith '' '' parts),
                                              fmt_note = joinWith '' | '' (filter (\<lambda>s. s \<noteq> []) segments),
                                              raw = trimmed\<rparr>))))"

definition parseFormatList :: "string \<Rightarrow> entry list" where
  "parseFormatList output = List.map_filter parseLine (splitLines output)"

definition classifyFormat :: "'a entry_scheme \<Rightarrow> kind" where
  "classifyFormat e =
     (if includesStr (toLowerCase (resolution e)) ''audio only''
         \<or> includesStr (toLowerCase (fmt_note e)) ''audio only''
         \<or> includesStr (toLowerCase (fmt_id e)) ''aud''
      then Audio else Video)"

text \<open>The unit \<^verbatim>\<open>(KiB|MiB|GiB|KB|MB|GB)\<close> matched without regard to case at the head of a
  string, in upper case.\<close>

definition matchUnit :: "string \<Rightarrow> string option" where
  "matchUnit s = find (startsWith (toUpperCase s)) [''KIB'', ''MIB'', ''GIB'', ''KB'', ''MB'', ''GB'']"

text \<open>\<^verbatim>\<open>(\d+(?:\.\d+)?)\s*(KiB|MiB|GiB|KB|MB|GB)\<close> matched at the head of a string: the
  number of group 2 (as \<^verbatim>\<open>Number.parseFloat\<close> reads it) and the unit.\<close>

definition matchSizeAt :: "string \<Rightarrow> (rat \<times> string) option" where
  "matchSizeAt s =
     (let ds = takeWhile isDigit s; r = dropWhile isDigit s;
          fracDigits = (if r \<noteq> [] \<and> hd r = CHR ''.'' then takeWhile isDigit (tl r) else []);
          r' = (if fracDigits \<noteq> [] then dropWhile isDigit (tl r) else r)
      in if ds = [] then None
         else (case matchUnit (dropWhile isSpace r') of
                 None \<Rightarrow> None
               | Some u \<Rightarrow>
                   Some (of_nat (parseDigits ds)
                           + of_nat (parseDigits fracDigits) / 10 ^ length fracDigits, u)))"

text \<open>\<^verbatim>\<open>/(~?)(\d+(?:\.\d+)?)\s*(KiB|MiB|GiB|KB|MB|GB)/i\<close>: the leftmost match.\<close>

fun matchSize :: "string \<Rightarrow> (rat \<times> string) option" where
  "matchSize [] = None"
| "matchSize (c # cs) =
     (case (if c = CHR ''~'' then matchSizeAt cs else matchSizeAt (c # cs)) of
        Some m \<Rightarrow> Some m
      | None \<Rightarrow> matchSize cs)"

definition parseSizeFromNote :: "string \<Rightarrow> rat option" where
  "parseSizeFromNote n =
     (case matchSize n of
        None \<Rightarrow> None
      | Some (v, unit) \<Rightarrow>
          (let base = (if includesStr unit ''I'' then 1024 else 1000);
               power = (if startsWith unit ''K'' then 1 else if startsWith unit ''M'' then 2 else 3 :: nat)
           in Some (of_int (mathRound (v * base ^ power)))))"

text \<open>The \<^verbatim>\<open>Map\<close> that \<^verbatim>\<open>listFormats\<close> fills from \<^verbatim>\<open>info.formats\<close>.\<close>

definition buildFormatMap :: "fmtMeta list \<Rightarrow> (string \<rightharpoonup> fmtMeta)" where
  "buildFormatMap fs = foldl (\<lambda>m f. if format_id f \<noteq> [] then m(format_id f \<mapsto> f) else m) Map.empty fs"

definition computeApproxSize :: "'a entry_scheme \<Rightarrow> (string \<rightharpoonup> fmtMeta) \<Rightarrow> rat option" where
  "computeApproxSize e formatMap =
     (case foldl (\<lambda>acc part.
                    case acc of (total', hasSize) \<Rightarrow>
                      (case formatMap part of
                         None \<Rightarrow> (total', hasSize)
                       | Some i \<Rightarrow>
                           (let sizeCandidate = (case filesize i of Some x \<Rightarrow> Some x
                                                 | None \<Rightarrow> filesize_approx i)
                            in if truthy sizeCandidate then (total' + the sizeCandidate, True)
                               else (total', hasSize))))
                 (0, False) (splitOn (CHR ''+'') (fmt_id e)) of
        (total', hasSize) \<Rightarrow> if hasSize then Some total' else parseSizeFromNote (fmt_note e))"

text \<open>The JSON metadata document, as the program reads it.\<close>

record info =
  info_title :: "string option"
  info_webpage_url :: "string option"
  info_duration :: "rat option"
  info_formats :: "fmtMeta list option"

record probeResult =
  title :: "string option"
  webpageUrl :: "string option"
  durationSeconds :: "rat option"
  formats :: "format list"

text \<open>What a promise rejects with.\<close>

datatype error =
    ToolNotFound
  | ToolExit int
  | MetadataEmpty
  | JsonSyntaxError
  | DownloadedFileNotFound
  | FsError
  | TelegramError "int option" "string option"

text \<open>
  \<^verbatim>\<open>fetchInfo(url)\<close>. The outcome of the subprocess (\<^verbatim>\<open>runYtDlp\<close>: its standard output, or
  the error it rejects with) is an input, and so is \<^verbatim>\<open>JSON.parse\<close> (\<open>None\<close> when it
  throws).
\<close>

definition fetchInfo :: "(string \<Rightarrow> info option) \<Rightarrow> error + string \<Rightarrow> error + info" where
  "fetchInfo jsonParse run =
     (case run of
        Inl e \<Rightarrow> Inl e
      | Inr out \<Rightarrow>
          (case filter (\<lambda>s. s \<noteq> []) (map trim (splitLines out)) of
             [] \<Rightarrow> Inl MetadataEmpty
           | line # _ \<Rightarrow> (case jsonParse line of None \<Rightarrow> Inl JsonSyntaxError | Some i \<Rightarrow> Inr i)))"

text \<open>\<^verbatim>\<open>listFormats(url)\<close>; \<open>listRun\<close> and \<open>infoRun\<close> are the outcomes of its two
  subprocesses. When both fail the model reports the failure of the listing.\<close>

definition listFormats ::
  "(string \<Rightarrow> info option) \<Rightarrow> error + string \<Rightarrow> error + string \<Rightarrow> error + probeResult" where
  "listFormats jsonParse listRun infoRun =
     (case listRun of
        Inl e \<Rightarrow> Inl e
      | Inr listOutput \<Rightarrow>
          (case fetchInfo jsonParse infoRun of
             Inl e \<Rightarrow> Inl e
           | Inr i \<Rightarrow>
               (let parsed = parseFormatList listOutput;
                    formatMap = buildFormatMap (case info_formats i of None \<Rightarrow> [] | Some fs \<Rightarrow> fs)
                in Inr \<lparr>title = info_title i,
                        webpageUrl = info_webpage_url i,
                        durationSeconds = (if truthy (info_duration i) then info_duration i else None),
                        formats = map (\<lambda>e. \<lparr>fmt_id = fmt_id e, extension = extension e,
                                             resolution = resolution e, fmt_note = fmt_note e,
                                             raw = raw e,
                                             approxSize = computeApproxSize e formatMap,
                                             fmt_type = classifyFormat e,
                                             meta = formatMap (fmt_id e)\<rparr>) parsed\<rparr>)))"

section \<open>session-store.js\<close>

text \<open>
  A session is a JavaScript object built and changed by spreading
  (\<^verbatim>\<open>{...existing, ...updated}\<close>): a finite map from property names to values. A property
  that is absent reads as \<^verbatim>\<open>undefined\<close>.
\<close>

datatype jsval = JUndefined | JNull | JNum rat | JStr string | JFormats "candidate list"

type_synonym session = "string \<rightharpoonup> jsval"

text \<open>The second argument of \<^verbatim>\<open>update\<close>: an object, or a function of the existing
  session.\<close>

datatype updater = UObj session | UFun "session \<Rightarrow> session"

text \<open>\<^verbatim>\<open>this.sessions\<close>, a \<^verbatim>\<open>Map\<close> keyed by the chat id.\<close>

type_synonym sessionStore = "int \<rightharpoonup> session"

text \<open>\<^verbatim>\<open>create(chatId, initialState)\<close>; \<open>now\<close> is \<^verbatim>\<open>Date.now()\<close>.\<close>

definition create :: "sessionStore \<Rightarrow> int \<Rightarrow> rat \<Rightarrow> session \<Rightarrow> sessionStore \<times> session" where
  "create sessions chatId now initialState =
     (let state = [''createdAt'' \<mapsto> JNum now] ++ initialState
      in (sessions(chatId \<mapsto> state), state))"

definition get :: "sessionStore \<Rightarrow> int \<Rightarrow> session option" where
  "get sessions chatId = sessions chatId"

text \<open>\<^verbatim>\<open>update(chatId, updater)\<close>: the new store and the returned value
  \<^verbatim>\<open>this.sessions.get(chatId)\<close>.\<close>

definition update :: "sessionStore \<Rightarrow> int \<Rightarrow> updater \<Rightarrow> sessionStore \<times> session option" where
  "update sessions chatId u =
     (let existing = (case sessions chatId of Some s \<Rightarrow> s | None \<Rightarrow> Map.empty);
          updated = (case u of UFun f \<Rightarrow> f existing | UObj ob \<Rightarrow> ob);
          sessions' = sessions(chatId \<mapsto> existing ++ updated)
      in (sessions', sessions' chatId))"

definition delete :: "sessionStore \<Rightarrow> int \<Rightarrow> sessionStore" where
  "delete sessions chatId = sessions(chatId := None)"

text \<open>Reading a property, and the truthiness of a value.\<close>

definition getField :: "session \<Rightarrow> string \<Rightarrow> jsval" where
  "getField s k = (case s k of None \<Rightarrow> JUndefined | Some v \<Rightarrow> v)"

definition jsTruthy :: "jsval \<Rightarrow> bool" where
  "jsTruthy v =
     (case v of JUndefined \<Rightarrow> False | JNull \<Rightarrow> False | JNum x \<Rightarrow> x \<noteq> 0
      | JStr s \<Rightarrow> s \<noteq> [] | JFormats fs \<Rightarrow> True)"

section \<open>queue.js\<close>

text \<open>
  The fields of \<^verbatim>\<open>DownloadQueue\<close> are \<open>concurrency\<close>, \<open>activeCount\<close> and \<open>queue\<close>. The
  promise chains that \<^verbatim>\<open>#runJob\<close> creates live in the event loop, not in a field: \<open>inFlight\<close>
  lists the jobs whose chain has not reached its \<^verbatim>\<open>finally\<close> handler, and \<open>startLog\<close> every
  job \<^verbatim>\<open>#runJob\<close> was called with, in the order of the calls. A job is identified by its
  task.
\<close>

record 'job downloadQueue =
  concurrency :: int
  activeCount :: int
  queue :: "'job list"
  inFlight :: "'job list"
  startLog :: "'job list"

text \<open>\<^verbatim>\<open>new DownloadQueue(concurrency)\<close>.\<close>

definition newQueue :: "int \<Rightarrow> 'job downloadQueue" where
  "newQueue c = \<lparr>concurrency = max c 1, activeCount = 0, queue = [], inFlight = [], startLog = []\<rparr>"

text \<open>The synchronous part of \<^verbatim>\<open>#runJob(job)\<close>: the count goes up and the chain that
  calls the task is created.\<close>

definition runJob :: "'job downloadQueue \<Rightarrow> 'job \<Rightarrow> 'job downloadQueue" where
  "runJob q job = q\<lparr>activeCount := activeCount q + 1,
                     inFlight := inFlight q @ [job],
                     startLog := startLog q @ [job]\<rparr>"

text \<open>What \<^verbatim>\<open>enqueue\<close> returns beside the promise.\<close>

record enqueued =
  position :: nat
  queued :: bool

definition enqueue :: "'job downloadQueue \<Rightarrow> 'job \<Rightarrow> 'job downloadQueue \<times> enqueued" where
  "enqueue q task =
     (let shouldQueue = (activeCount q \<ge> concurrency q);
          pos = (if shouldQueue then length (queue q) + 1 else 0)
      in ((if shouldQueue then q\<lparr>queue := queue q @ [task]\<rparr> else runJob q task),
          \<lparr>position = pos, queued = shouldQueue\<rparr>))"

text \<open>The \<^verbatim>\<open>finally\<close> handler of the chain of \<open>job\<close>, which runs after the task has
  resolved and after it has rejected alike.\<close>

definition settle :: "'job downloadQueue \<Rightarrow> 'job \<Rightarrow> 'job downloadQueue" where
  "settle q job =
     (let q1 = q\<lparr>activeCount := activeCount q - 1, inFlight := remove1 job (inFlight q)\<rparr>
      in case queue q1 of
           [] \<Rightarrow> q1
         | nxt # rest \<Rightarrow> runJob (q1\<lparr>queue := rest\<rparr>) nxt)"

text \<open>A run of the queue: calls of \<^verbatim>\<open>enqueue\<close> and completions of started tasks, each
  with its outcome (\<open>True\<close> for a task that resolved, \<open>False\<close> for one that rejected). Only
  a job in flight can complete.\<close>

datatype 'job event = Enqueue 'job | Complete 'job bool

fun step :: "'job downloadQueue \<Rightarrow> 'job event \<Rightarrow> 'job downloadQueue" where
  "step q (Enqueue task) = fst (enqueue q task)"
| "step q (Complete job ok) = (if job \<in> set (inFlight q) then settle q job else q)"

definition runEvents :: "int \<Rightarrow> 'job event list \<Rightarrow> 'job downloadQueue" where
  "runEvents c evs = foldl step (newQueue c) evs"

text \<open>The tasks passed to \<^verbatim>\<open>enqueue\<close> in a run, in the order of the calls.\<close>

fun enqueuedTasks :: "'job event list \<Rightarrow> 'job list" where
  "enqueuedTasks [] = []"
| "enqueuedTasks (Enqueue task # evs) = task # enqueuedTasks evs"
| "enqueuedTasks (Complete job ok # evs) = enqueuedTasks evs"

section \<open>config.js\<close>

text \<open>
  The settings the handlers read. \<open>AUTHORIZED_USER_IDS\<close> lists the elements of the
  \<^verbatim>\<open>Set\<close>; \<open>MAX_FILE_SIZE_MB\<close> is a whole number of megabytes (the text of a fractional
  setting in a reply is not modelled).
\<close>

record config =
  AUTHORIZED_USER_IDS :: "int list"
  MAX_CONCURRENT_DOWNLOADS :: int
  MAX_FILE_SIZE_MB :: nat
  DOWNLOAD_TEMP_DIR :: string
  YT_DLP_COOKIES_PATH :: string

text \<open>\<^verbatim>\<open>MAX_FILE_SIZE_BYTES = Math.round(MAX_FILE_SIZE_MB * 1024 * 1024)\<close>, which index.js
  calls \<^verbatim>\<open>TELEGRAM_FILE_LIMIT_BYTES\<close>.\<close>

definition MAX_FILE_SIZE_BYTES :: "config \<Rightarrow> rat" where
  "MAX_FILE_SIZE_BYTES cfg = of_int (mathRound (of_nat (MAX_FILE_SIZE_MB cfg) * 1024 * 1024))"

section \<open>index.js: the chat handlers\<close>

text \<open>What a handler reads of the update: \<^verbatim>\<open>ctx.chat.id\<close>, whether \<^verbatim>\<open>ctx.chat.type\<close> is
  \<^verbatim>\<open>"private"\<close>, and \<^verbatim>\<open>ctx.from?.id\<close>.\<close>

record ctx =
  chat_id :: int
  chat_private :: bool
  from_id :: "int option"

text \<open>What a handler does to the outside, in order: calls of the chat platform (an
  inline keyboard is a list of rows of buttons, each a label and its callback data), of the
  logger, of the file system and of the external tool.\<close>

datatype effect =
    AnswerCbQuery string bool
  | Reply string "(string \<times> string) list list"
  | DeleteMessage int jsval
  | DeleteMessageLater int int
  | EditMessageText int int string
  | SendAudio int string string
  | SendDocument int string string
  | SendVideo int string
  | LogWarn string
  | LogError string
  | EnsureDir string
  | RunYtDlp "string list"
  | Readdir string
  | Move string string
  | Stat string
  | Remove string

text \<open>\<^verbatim>\<open>isAuthorized(userId)\<close>; \<^verbatim>\<open>Number(undefined)\<close> is not in the set.\<close>

definition isAuthorized :: "config \<Rightarrow> int option \<Rightarrow> bool" where
  "isAuthorized cfg userId =
     (if AUTHORIZED_USER_IDS cfg = [] then False
      else (case userId of None \<Rightarrow> False | Some u \<Rightarrow> u \<in> set (AUTHORIZED_USER_IDS cfg)))"

definition handleUnauthorized :: "ctx \<Rightarrow> effect list" where
  "handleUnauthorized c =
     LogWarn ''Unauthorized access attempt''
       # (if \<not> chat_private c then [] else [Reply ''You are not allowed to use this bot.'' []])"

text \<open>\<^verbatim>\<open>/(https?:\/\/[^\s]+)/i\<close> matched at the head of a string.\<close>

definition matchUrlAt :: "string \<Rightarrow> string option" where
  "matchUrlAt s =
     (let l = toLowerCase s;
          n = (if startsWith l ''https://'' then 8 else if startsWith l ''http://'' then 7 else 0);
          body = takeWhile (\<lambda>c. \<not> isSpace c) (drop n s)
      in if n \<noteq> 0 \<and> body \<noteq> [] then Some (take n s @ body) else None)"

fun sanitizeUrl :: "string \<Rightarrow> string option" where
  "sanitizeUrl [] = None"
| "sanitizeUrl (c # cs) =
     (case matchUrlAt (c # cs) of Some u \<Rightarrow> Some u | None \<Rightarrow> sanitizeUrl cs)"

text \<open>\<^verbatim>\<open>buttons.slice(i, i + 2)\<close> for \<open>i = 0, 2, 4, \<dots>\<close>\<close>

fun rowsOfTwo :: "'a list \<Rightarrow> 'a list list" where
  "rowsOfTwo [] = []"
| "rowsOfTwo [x] = [[x]]"
| "rowsOfTwo (x # y # r) = [x, y] # rowsOfTwo r"

definition buildFormatKeyboard :: "candidate list \<Rightarrow> kind \<Rightarrow> (string \<times> string) list list" where
  "buildFormatKeyboard fs t =
     rowsOfTwo (map (\<lambda>(index, f). (displayLabel f, ''fmt:'' @ kindName t @ '':'' @ showNat index))
                    (enumerate 0 fs))
     @ [[(''Cancel'', ''cancel'')]]"

text \<open>\<^verbatim>\<open>ctx.from?.id\<close> as a value, and an optional string or number as a value.\<close>

definition userIdVal :: "int option \<Rightarrow> jsval" where
  "userIdVal u = (case u of None \<Rightarrow> JUndefined | Some n \<Rightarrow> JNum (of_int n))"

definition strVal :: "string option \<Rightarrow> jsval" where
  "strVal s = (case s of None \<Rightarrow> JUndefined | Some t \<Rightarrow> JStr t)"

definition numOrNull :: "rat option \<Rightarrow> jsval" where
  "numOrNull n = (case n of None \<Rightarrow> JNull | Some x \<Rightarrow> JNum x)"

text \<open>The text of a value that is a string (a session holds its url and title as
  strings); the empty string for anything else.\<close>

definition strOf :: "jsval \<Rightarrow> string" where
  "strOf v = (case v of JStr s \<Rightarrow> s | _ \<Rightarrow> [])"

text \<open>
  \<^verbatim>\<open>bot.on("text", \<dots>)\<close>: a URL is submitted. \<open>now\<close> is \<^verbatim>\<open>Date.now()\<close> and
  \<open>selectionMessageId\<close> the id of the message the reply creates.
\<close>

definition onText ::
  "config \<Rightarrow> rat \<Rightarrow> int \<Rightarrow> sessionStore \<Rightarrow> ctx \<Rightarrow> string \<Rightarrow> sessionStore \<times> effect list" where
  "onText cfg now selectionMessageId sessions c txt =
     (if \<not> isAuthorized cfg (from_id c) then (sessions, handleUnauthorized c)
      else
        (case (case get sessions (chat_id c) of
                 None \<Rightarrow> (sessions, [])
               | Some existingSession \<Rightarrow>
                   (delete sessions (chat_id c),
                    (if jsTruthy (getField existingSession ''formatMessageId'')
                     then [DeleteMessage (chat_id c) (getField existingSession ''formatMessageId'')]
                     else [])
                    @ (if jsTruthy (getField existingSession ''selectionMessageId'')
                       then [DeleteMessage (chat_id c) (getField existingSession ''selectionMessageId'')]
                       else []))) of
           (s1, fx) \<Rightarrow>
             (case sanitizeUrl txt of
                None \<Rightarrow> (s1, fx @ [Reply ''Please send a valid media URL.'' []])
              | Some url \<Rightarrow>
                  (let s2 = fst (create s1 (chat_id c) now
                                   [''url'' \<mapsto> JStr url, ''userId'' \<mapsto> userIdVal (from_id c)]);
                       s3 = fst (update s2 (chat_id c)
                                   (UObj [''selectionMessageId'' \<mapsto> JNum (of_int selectionMessageId),
                                          ''formatMessageId'' \<mapsto> JNull]))
                   in (s3, fx @ [Reply ''What would you like to download?''
                                   [[(''Audio'', ''type:audio''), (''Video'', ''type:video'')],
                                    [(''Cancel'', ''cancel'')]]])))))"

text \<open>
  \<^verbatim>\<open>bot.action(/^type:(audio|video)$/i, \<dots>)\<close>: the kind is chosen. The environment gives
  the id of the message that carried the button, the ids of the messages the replies
  create, and the outcomes of the two probe subprocesses.
\<close>

record typeEnv =
  promptMessageId :: "int option"
  loadingMessageId :: int
  newFormatMessageId :: int
  probeListRun :: "error + string"
  probeInfoRun :: "error + string"

definition onTypeAction ::
  "config \<Rightarrow> (string \<Rightarrow> info option) \<Rightarrow> typeEnv \<Rightarrow> sessionStore \<Rightarrow> ctx \<Rightarrow> kind
     \<Rightarrow> sessionStore \<times> effect list" where
  "onTypeAction cfg jsonParse env sessions c t =
     (if \<not> isAuthorized cfg (from_id c)
      then (sessions, AnswerCbQuery ''Not allowed'' True # handleUnauthorized c)
      else
        (case get sessions (chat_id c) of
           None \<Rightarrow> (sessions, [AnswerCbQuery ''No active request. Send a link first.'' True])
         | Some session \<Rightarrow>
             if getField session ''userId'' \<noteq> userIdVal (from_id c)
             then (sessions, [AnswerCbQuery ''No active request. Send a link first.'' True])
             else
               (let chatId = chat_id c;
                    selectionMessageId =
                      (if jsTruthy (getField session ''selectionMessageId'')
                       then getField session ''selectionMessageId''
                       else (case promptMessageId env of None \<Rightarrow> JUndefined
                             | Some m \<Rightarrow> JNum (of_int m)));
                    s1 = (if jsTruthy selectionMessageId
                          then fst (update sessions chatId (UObj [''selectionMessageId'' \<mapsto> JNull]))
                          else sessions);
                    fx1 = AnswerCbQuery [] False
                            # (if jsTruthy selectionMessageId
                               then [DeleteMessage chatId selectionMessageId] else [])
                            @ [Reply ''Fetching available formats...'' []];
                    final = [DeleteMessage chatId (JNum (of_int (loadingMessageId env)))]
                in case listFormats jsonParse (probeListRun env) (probeInfoRun env) of
                     Inl e \<Rightarrow>
                       (s1, fx1 @ [LogError ''Failed to list formats'',
                                   Reply ''Could not retrieve formats. Please try again later.'' []]
                                @ final)
                   | Inr pr \<Rightarrow>
                       (let filtered = getFormatsByType (formats pr) t (durationSeconds pr)
                        in if filtered = []
                           then (s1, fx1 @ [Reply ''No suitable formats found. Try another link or type.'' []]
                                        @ final)
                           else
                             (fst (update s1 chatId
                                     (UObj [''type'' \<mapsto> JStr (kindName t),
                                            ''title'' \<mapsto> strVal (title pr),
                                            ''webpageUrl'' \<mapsto> strVal (webpageUrl pr),
                                            ''durationSeconds'' \<mapsto> numOrNull (durationSeconds pr),
                                            ''formats'' \<mapsto> JFormats filtered,
                                            ''formatMessageId'' \<mapsto> JNum (of_int (newFormatMessageId env)),
                                            ''selectionMessageId'' \<mapsto> JNull])),
                              fx1 @ [Reply (if t = Audio then ''Choose an audio bitrate:''
                                            else ''Choose a video quality:'')
                                           (buildFormatKeyboard filtered t)]
                                  @ final)))))"

text \<open>What the task of a download job closes over: the chat, \<^verbatim>\<open>session.url\<close>, the
  selected format, the kind, \<^verbatim>\<open>session.title\<close> and the id of the status message.\<close>

record job =
  job_chatId :: int
  job_url :: jsval
  job_format :: candidate
  job_type :: kind
  job_title :: jsval
  job_statusMessageId :: int

text \<open>\<^verbatim>\<open>session.formats?.[index]\<close>.\<close>

definition formatAt :: "session \<Rightarrow> nat \<Rightarrow> candidate option" where
  "formatAt session index =
     (case getField session ''formats'' of
        JFormats fs \<Rightarrow> if index < length fs then Some (fs ! index) else None
      | _ \<Rightarrow> None)"

text \<open>
  \<^verbatim>\<open>bot.action(/^fmt:(audio|video):(\d+)$/i, \<dots>)\<close> up to the handlers it attaches to the
  promise of the job: a format is chosen. The environment gives the ids of the messages
  the replies create.
\<close>

record fmtEnv =
  retryMessageId :: int
  statusMessageId :: int

definition onFmtAction ::
  "config \<Rightarrow> fmtEnv \<Rightarrow> sessionStore \<Rightarrow> job downloadQueue \<Rightarrow> ctx \<Rightarrow> kind \<Rightarrow> nat
     \<Rightarrow> sessionStore \<times> job downloadQueue \<times> effect list" where
  "onFmtAction cfg env sessions q c t index =
     (if \<not> isAuthorized cfg (from_id c)
      then (sessions, q, AnswerCbQuery ''Not allowed'' True # handleUnauthorized c)
      else
        (case get sessions (chat_id c) of
           None \<Rightarrow> (sessions, q, [AnswerCbQuery ''Request expired. Send the link again.'' True])
         | Some session \<Rightarrow>
             if getField session ''userId'' \<noteq> userIdVal (from_id c)
             then (sessions, q, [AnswerCbQuery ''Request expired. Send the link again.'' True])
             else
               (case formatAt session index of
                  None \<Rightarrow> (sessions, q, [AnswerCbQuery ''Unknown format.'' True])
                | Some selectedFormat \<Rightarrow>
                    (let chatId = chat_id c;
                         s1 = (if jsTruthy (getField session ''formatMessageId'')
                               then fst (update sessions chatId (UObj [''formatMessageId'' \<mapsto> JNull]))
                               else sessions);
                         s2 = fst (update s1 chatId (UObj [''title'' \<mapsto> getField session ''title'']));
                         fx = AnswerCbQuery (''Selected '' @ displayLabel selectedFormat) False
                                # (if jsTruthy (getField session ''formatMessageId'')
                                   then [DeleteMessage chatId (getField session ''formatMessageId'')]
                                   else []);
                         estimatedSize = jsOr (estimatedSizeBytes selectedFormat)
                                              (approxSize selectedFormat)
                     in if truthy estimatedSize \<and> the estimatedSize > MAX_FILE_SIZE_BYTES cfg
                        then
                          (let currentFormats = (case getField session ''formats'' of
                                                   JFormats fs \<Rightarrow> fs | _ \<Rightarrow> []);
                               fx2 = fx @ [Reply (''Selected option is larger than ''
                                                   @ showNat (MAX_FILE_SIZE_MB cfg)
                                                   @ '' MB. Please pick a smaller choice.'') []]
                           in if currentFormats \<noteq> []
                              then (fst (update s2 chatId
                                           (UObj [''formatMessageId'' \<mapsto> JNum (of_int (retryMessageId env))])),
                                    q,
                                    fx2 @ [Reply (if t = Audio then ''Pick a smaller audio bitrate:''
                                                  else ''Pick a smaller video quality:'')
                                                 (buildFormatKeyboard currentFormats t)])
                              else (s2, q, fx2))
                        else
                          (case enqueue q \<lparr>job_chatId = chatId, job_url = getField session ''url'',
                                           job_format = selectedFormat, job_type = t,
                                           job_title = getField session ''title'',
                                           job_statusMessageId = statusMessageId env\<rparr> of
                             (q', r) \<Rightarrow>
                               (s2, q',
                                fx @ [Reply ''Queued...'' []]
                                   @ (if position r > 0
                                      then [EditMessageText chatId (statusMessageId env)
                                              (''Queued (#'' @ showNat (position r)
                                                 @ ''). Waiting for your turn...'')]
                                      else [])))))))"

text \<open>\<^verbatim>\<open>bot.action("cancel", \<dots>)\<close>, the Cancel button.\<close>

definition onCancelAction :: "sessionStore \<Rightarrow> ctx \<Rightarrow> sessionStore \<times> effect list" where
  "onCancelAction sessions c =
     (delete sessions (chat_id c),
      [AnswerCbQuery ''Canceled'' False,
       Reply (''Canceled. Send a new link whenever you'' @ [CHR 0x27] @ ''re ready.'') []])"

text \<open>\<^verbatim>\<open>bot.command("cancel", \<dots>)\<close>, the \<^verbatim>\<open>/cancel\<close> command.\<close>

definition onCancelCommand :: "config \<Rightarrow> sessionStore \<Rightarrow> ctx \<Rightarrow> sessionStore \<times> effect list" where
  "onCancelCommand cfg sessions c =
     (if \<not> isAuthorized cfg (from_id c) then (sessions, handleUnauthorized c)
      else (delete sessions (chat_id c),
            [Reply ''Canceled current request. Send a new link to start over.'' []]))"

section \<open>downloader.js: the download executor\<close>

text \<open>Replacing every maximal run of characters of a class by one character:
  \<^verbatim>\<open>replace(/[\\/:*?"<>|]+/g, "_")\<close> and \<^verbatim>\<open>replace(/\s+/g, " ")\<close>.\<close>

function collapseRuns :: "(char \<Rightarrow> bool) \<Rightarrow> char \<Rightarrow> string \<Rightarrow> string" where
  "collapseRuns P r [] = []"
| "collapseRuns P r (c # cs) =
     (if P c then r # collapseRuns P r (dropWhile P cs) else c # collapseRuns P r cs)"
  by pat_completeness auto
termination
  by (relation "measure (\<lambda>(P, r, s). length s)") (auto simp: length_dropWhile_le le_imp_less_Suc)

definition illegalChar :: "char \<Rightarrow> bool" where
  "illegalChar c = (c \<in> set ([CHR 0x5C, CHR 0x22] @ ''/:*?<>|''))"

definition sanitizeFileName :: "string \<Rightarrow> string" where
  "sanitizeFileName name =
     (if name = [] then ''output''
      else (let s = take 180 (trim (collapseRuns isSpace (CHR '' '')
                                      (collapseRuns illegalChar (CHR ''_'') name)))
            in if s = [] then ''output'' else s))"

definition pickDownloadedFile :: "string list \<Rightarrow> string option" where
  "pickDownloadedFile files =
     find (\<lambda>file. if startsWith file ''.'' then False
                  else (let lower = toLowerCase file
                        in \<not> endsWith lower ''.part'' \<and> \<not> endsWith lower ''.ytdl''
                           \<and> \<not> endsWith lower ''.info.json''))
          files"

text \<open>\<^verbatim>\<open>path.parse(file).ext\<close> and \<^verbatim>\<open>path.parse(file).name\<close> for a file name without
  directories: the extension starts at the last point, unless that is the first
  character.\<close>

definition extname :: "string \<Rightarrow> string" where
  "extname b =
     (let e = takeWhile (\<lambda>c. c \<noteq> CHR ''.'') (rev b)
      in if length e = length b \<or> length e + 1 = length b then [] else CHR ''.'' # rev e)"

definition pathName :: "string \<Rightarrow> string" where
  "pathName b = take (length b - length (extname b)) b"

definition COMMON_ARGS :: "string list" where
  "COMMON_ARGS = [''--ignore-config'', ''--no-warnings'', ''--no-playlist'']"

text \<open>
  The outside of one download job: the two random identifiers, whether the cookie file
  exists, and the outcome of each call of the file system, of the external tool and of
  the chat platform (\<open>None\<close> in \<open>sendResult\<close>: the file was delivered).
\<close>

record dlEnv =
  jobId :: string
  randomName :: string
  cookiesExist :: bool
  ensureDirOk :: bool
  toolRun :: "error + string"
  readdirResult :: "error + string list"
  moveOk :: bool
  statResult :: "error + nat"
  sendResult :: "error option"
  cleanupOk :: bool

definition buildArgs :: "config \<Rightarrow> dlEnv \<Rightarrow> string list \<Rightarrow> string list" where
  "buildArgs cfg env additional =
     COMMON_ARGS @ additional
     @ (if YT_DLP_COOKIES_PATH cfg \<noteq> [] \<and> cookiesExist env
        then [''--cookies'', YT_DLP_COOKIES_PATH cfg] else [])"

text \<open>What \<^verbatim>\<open>downloadMedia\<close> returns; \<open>dl_workingDir\<close> is the directory its \<^verbatim>\<open>cleanup\<close>
  closure removes.\<close>

record downloadResult =
  filePath :: string
  fileName :: string
  dl_title :: string
  dl_size :: nat
  dl_workingDir :: string

text \<open>
  \<^verbatim>\<open>downloadMedia({url, formatId, type, expectedTitle, onStatus, targetFileName})\<close>: the
  result or the error it rejects with, and what it did. A path is joined with \<open>/\<close>; an
  absent title or target name is the empty string (both are falsy).
\<close>

definition downloadMedia ::
  "config \<Rightarrow> dlEnv \<Rightarrow> string \<Rightarrow> string \<Rightarrow> kind \<Rightarrow> string \<Rightarrow> (string \<Rightarrow> effect list) \<Rightarrow> string
     \<Rightarrow> (error + downloadResult) \<times> effect list" where
  "downloadMedia cfg env url formatId t expectedTitle onStatus targetName =
     (let workingDir = DOWNLOAD_TEMP_DIR cfg @ ''/'' @ jobId env;
          fx0 = [EnsureDir workingDir]
      in if \<not> ensureDirOk env then (Inl FsError, fx0)
         else
           (let args = buildArgs cfg env
                         [''--no-progress'', ''--output'', workingDir @ ''/%(id)s.%(ext)s'',
                          ''-f'', formatId, url];
                fx1 = fx0 @ onStatus ''Downloading source...'' @ [RunYtDlp args]
            in case toolRun env of
                 Inl e \<Rightarrow> (Inl e, fx1)
               | Inr out \<Rightarrow>
                   (case readdirResult env of
                      Inl e \<Rightarrow> (Inl e, fx1 @ [Readdir workingDir])
                    | Inr files \<Rightarrow>
                        (case pickDownloadedFile files of
                           None \<Rightarrow> (Inl DownloadedFileNotFound, fx1 @ [Readdir workingDir])
                         | Some downloadedFile \<Rightarrow>
                             (let downloadedPath = workingDir @ ''/'' @ downloadedFile;
                                  baseTitle = sanitizeFileName
                                                (if expectedTitle \<noteq> [] then expectedTitle
                                                 else pathName downloadedFile);
                                  displayTitle = (if expectedTitle \<noteq> [] then expectedTitle
                                                  else baseTitle);
                                  originalExt = (if extname downloadedFile \<noteq> []
                                                 then extname downloadedFile
                                                 else if t = Audio then ''.mp3'' else ''.mp4'');
                                  safeBase = sanitizeFileName
                                               (if targetName \<noteq> [] then targetName
                                                else randomName env);
                                  finalFileName = safeBase @ originalExt;
                                  finalPath = workingDir @ ''/'' @ finalFileName;
                                  fx2 = fx1 @ [Readdir workingDir]
                                        @ (if downloadedPath \<noteq> finalPath
                                           then [Move downloadedPath finalPath] else [])
                              in if downloadedPath \<noteq> finalPath \<and> \<not> moveOk env
                                 then (Inl FsError, fx2)
                                 else (case statResult env of
                                         Inl e \<Rightarrow> (Inl e, fx2 @ [Stat finalPath])
                                       | Inr sz \<Rightarrow>
                                           (Inr \<lparr>filePath = finalPath, fileName = finalFileName,
                                                  dl_title = displayTitle, dl_size = sz,
                                                  dl_workingDir = workingDir\<rparr>,
                                            fx2 @ [Stat finalPath])))))))"

section \<open>index.js: the download job\<close>

definition isTelegramEntityTooLarge :: "error \<Rightarrow> bool" where
  "isTelegramEntityTooLarge e =
     (case e of
        TelegramError code description \<Rightarrow>
          code = Some 413
          \<or> (case description of
                None \<Rightarrow> False
              | Some d \<Rightarrow> includesStr (toLowerCase d) ''request entity too large'')
      | _ \<Rightarrow> False)"

text \<open>The value a task resolves with (\<^verbatim>\<open>{ success, reason, keepSession }\<close>, an absent
  property being falsy), and how the promise of a job settles.\<close>

record taskResult =
  success :: bool
  reason :: string
  keepSession :: bool

datatype outcome = Resolved taskResult | Rejected error

text \<open>The \<^verbatim>\<open>finally\<close> block of the task when \<^verbatim>\<open>download\<close> is set: \<^verbatim>\<open>download.cleanup()\<close>,
  whose failure is logged.\<close>

definition cleanup :: "dlEnv \<Rightarrow> downloadResult \<Rightarrow> effect list" where
  "cleanup env d =
     Remove (dl_workingDir d)
       # (if cleanupOk env then [] else [LogWarn ''Failed to delete temporary download directory''])"

text \<open>
  The task that the format handler passes to \<^verbatim>\<open>queue.enqueue\<close>. When \<^verbatim>\<open>downloadMedia\<close>
  rejects, the variable \<^verbatim>\<open>download\<close> is still unset and the \<^verbatim>\<open>finally\<close> block does
  nothing.
\<close>

definition downloadTask :: "config \<Rightarrow> dlEnv \<Rightarrow> job \<Rightarrow> outcome \<times> effect list" where
  "downloadTask cfg env j =
     (let chatId = job_chatId j;
          updateStatus = (\<lambda>t. [EditMessageText chatId (job_statusMessageId j) t]);
          fx0 = updateStatus ''Preparing download...''
      in case downloadMedia cfg env (strOf (job_url j)) (fmt_id (job_format j)) (job_type j)
                (strOf (job_title j)) updateStatus (targetFileName (job_format j)) of
           (Inl e, fx1) \<Rightarrow> (Rejected e, fx0 @ fx1)
         | (Inr download, fx1) \<Rightarrow>
             if of_nat (dl_size download) > MAX_FILE_SIZE_BYTES cfg
             then (Resolved \<lparr>success = False, reason = ''file-too-large'', keepSession = True\<rparr>,
                   fx0 @ fx1
                   @ [LogWarn ''Downloaded file exceeds configured size limit'']
                   @ updateStatus ''Download complete, but file exceeds size limit. Please pick a smaller option.''
                   @ cleanup env download)
             else
               (let lowerFile = toLowerCase (fileName download);
                    send = (if job_type j = Audio
                            then (if endsWith lowerFile ''.mp3'' \<or> endsWith lowerFile ''.m4a''
                                  then SendAudio chatId (fileName download) (dl_title download)
                                  else SendDocument chatId (fileName download) (dl_title download))
                            else SendVideo chatId (dl_title download));
                    fx2 = fx0 @ fx1 @ updateStatus ''Uploading...'' @ [send]
                in case sendResult env of
                     None \<Rightarrow>
                       (Resolved \<lparr>success = True, reason = [], keepSession = False\<rparr>,
                        fx2 @ updateStatus (''Done '' @ [CHR 0xE2, CHR 0x9C, CHR 0x85])
                            @ cleanup env download)
                   | Some e \<Rightarrow>
                       if isTelegramEntityTooLarge e
                       then (Resolved \<lparr>success = False, reason = ''telegram-file-too-large'',
                                       keepSession = True\<rparr>,
                             fx2 @ [LogWarn ''Telegram rejected upload: entity too large'']
                                 @ updateStatus ''Telegram rejected the upload because it exceeds their file size limit. Please choose a smaller format.''
                                 @ cleanup env download)
                       else (Rejected e, fx2 @ cleanup env download)))"

text \<open>
  The handlers the format handler attaches to \<^verbatim>\<open>job.promise\<close>: \<^verbatim>\<open>.then\<close> for a promise
  that resolved, \<^verbatim>\<open>.catch\<close> for one that rejected. \<open>retry\<close> is the id of the message a
  new prompt creates.
\<close>

definition onJobSettled ::
  "int \<Rightarrow> sessionStore \<Rightarrow> job \<Rightarrow> outcome \<Rightarrow> sessionStore \<times> effect list" where
  "onJobSettled retry sessions j out =
     (let chatId = job_chatId j
      in case out of
           Resolved r \<Rightarrow>
             if success r
             then (delete sessions chatId, [DeleteMessageLater chatId (job_statusMessageId j)])
             else if keepSession r
             then (case get sessions chatId of
                     None \<Rightarrow> (sessions, [])
                   | Some currentSession \<Rightarrow>
                       (case getField currentSession ''formats'' of
                          JFormats fs \<Rightarrow>
                            if fs \<noteq> []
                            then (fst (update sessions chatId
                                         (UObj [''formatMessageId'' \<mapsto> JNum (of_int retry)])),
                                  [Reply (if job_type j = Audio then ''Choose another audio bitrate:''
                                          else ''Choose another video quality:'')
                                         (buildFormatKeyboard fs (job_type j))])
                            else (sessions, [])
                        | _ \<Rightarrow> (sessions, [])))
             else (delete sessions chatId, [])
         | Rejected e \<Rightarrow>
             (sessions,
              [LogError ''Download job failed'',
               EditMessageText chatId (job_statusMessageId j)
                 ''Failed. Please try another format or send a new link.'']))"

section \<open>Concrete inputs\<close>

text \<open>The format of the first end-to-end scenario of the specification: the probe line
  \<^verbatim>\<open>140 m4a audio only | 128k\<close> with metadata \<^verbatim>\<open>{format_id: "140", filesize: 3000000}\<close>.\<close>

definition format140 :: format where
  "format140 =
     \<lparr>fmt_id = ''140'', extension = ''m4a'', resolution = ''audio only'', fmt_note = ''128k'',
      raw = ''140 m4a audio only | 128k'', approxSize = Some 3000000, fmt_type = Audio,
      meta = Some \<lparr>format_id = ''140'', filesize = Some 3000000, filesize_approx = None,
                   abr = None, tbr = None, height = None\<rparr>\<rparr>"

text \<open>Two audio formats whose bitrate is neither declared nor written in the note.\<close>

definition formatA1 :: format where
  "formatA1 =
     \<lparr>fmt_id = ''a1'', extension = ''m4a'', resolution = ''audio only'', fmt_note = [],
      raw = ''a1 m4a audio only'', approxSize = None, fmt_type = Audio, meta = None\<rparr>"

definition formatA2 :: format where
  "formatA2 =
     \<lparr>fmt_id = ''a2'', extension = ''m4a'', resolution = ''audio only'', fmt_note = [],
      raw = ''a2 m4a audio only'', approxSize = None, fmt_type = Audio, meta = None\<rparr>"

text \<open>\<^verbatim>\<open>JSON.parse\<close> on two texts: the empty object, and anything else taken as not
  JSON.\<close>

definition emptyInfo :: info where
  "emptyInfo = \<lparr>info_title = None, info_webpage_url = None, info_duration = None,
                 info_formats = None\<rparr>"

definition jsonParseExample :: "string \<Rightarrow> info option" where
  "jsonParseExample s = (if s = ''{}'' then Some emptyInfo else None)"

text \<open>A configuration with two allowed users and a limit of 1900 MB.\<close>

definition cfgExample :: config where
  "cfgExample = \<lparr>AUTHORIZED_USER_IDS = [1, 2], MAX_CONCURRENT_DOWNLOADS = 2,
                  MAX_FILE_SIZE_MB = 1900, DOWNLOAD_TEMP_DIR = ''/tmp/yttelbot'',
                  YT_DLP_COOKIES_PATH = ''/config/cookies.txt''\<rparr>"

text \<open>Two video candidates: one estimated at 2,000,000,000 bytes, one at 3,000,000.\<close>

definition candidateBig :: candidate where
  "candidateBig =
     \<lparr>fmt_id = ''137+140'', extension = ''mp4'', resolution = ''1920x1080'', fmt_note = [],
      raw = ''137+140 mp4 1920x1080'', approxSize = Some 2000000000, fmt_type = Video,
      meta = None, estimatedSizeBytes = Some 2000000000,
      displayLabel = ''MP4 1080p (~1.9GB)'', targetFileName = ''137+140-video''\<rparr>"

definition candidateSmall :: candidate where
  "candidateSmall =
     \<lparr>fmt_id = ''18'', extension = ''mp4'', resolution = ''640x360'', fmt_note = [],
      raw = ''18 mp4 640x360'', approxSize = Some 3000000, fmt_type = Video,
      meta = None, estimatedSizeBytes = Some 3000000,
      displayLabel = ''MP4 360p (~2.9MB)'', targetFileName = ''18-video''\<rparr>"

text \<open>A session of user 1 in the group chat 100, waiting for the choice of a format,
  and the store that holds it.\<close>

definition sessionExample :: session where
  "sessionExample =
     [''createdAt'' \<mapsto> JNum 0, ''url'' \<mapsto> JStr ''https://example.org/v'', ''userId'' \<mapsto> JNum 1,
      ''selectionMessageId'' \<mapsto> JNull, ''type'' \<mapsto> JStr ''video'', ''title'' \<mapsto> JStr ''T'',
      ''webpageUrl'' \<mapsto> JStr ''https://example.org/v'', ''durationSeconds'' \<mapsto> JNum 187,
      ''formats'' \<mapsto> JFormats [candidateBig, candidateSmall], ''formatMessageId'' \<mapsto> JNum 11]"

definition storeExample :: sessionStore where
  "storeExample = [100 \<mapsto> sessionExample]"

text \<open>Updates in chat 100 from the owner, from the other allowed user, and from a
  user who is not allowed.\<close>

definition ownerCtx :: ctx where
  "ownerCtx = \<lparr>chat_id = 100, chat_private = False, from_id = Some 1\<rparr>"

definition otherCtx :: ctx where
  "otherCtx = \<lparr>chat_id = 100, chat_private = False, from_id = Some 2\<rparr>"

definition strangerCtx :: ctx where
  "strangerCtx = \<lparr>chat_id = 100, chat_private = False, from_id = Some 3\<rparr>"

definition typeEnvExample :: typeEnv where
  "typeEnvExample = \<lparr>promptMessageId = Some 10, loadingMessageId = 20, newFormatMessageId = 21,
                      probeListRun = Inr ''18 mp4 640x360 | 3.0MB'', probeInfoRun = Inr ''{}''\<rparr>"

definition fmtEnvExample :: fmtEnv where
  "fmtEnvExample = \<lparr>retryMessageId = 30, statusMessageId = 31\<rparr>"

text \<open>The job of the small candidate, and two outsides of its run: the external tool
  exits with code 1, and the tool leaves only a partial file.\<close>

definition jobExample :: job where
  "jobExample = \<lparr>job_chatId = 100, job_url = JStr ''https://example.org/v'',
                  job_format = candidateSmall, job_type = Video, job_title = JStr ''T'',
                  job_statusMessageId = 31\<rparr>"

definition envToolFails :: dlEnv where
  "envToolFails = \<lparr>jobId = ''job-1'', randomName = ''rnd-1'', cookiesExist = False,
                    ensureDirOk = True, toolRun = Inl (ToolExit 1), readdirResult = Inr [],
                    moveOk = True, statResult = Inr 0, sendResult = None, cleanupOk = True\<rparr>"

definition envNoFile :: dlEnv where
  "envNoFile = \<lparr>jobId = ''job-2'', randomName = ''rnd-2'', cookiesExist = False,
                 ensureDirOk = True, toolRun = Inr [], readdirResult = Inr [''abc.mp4.part''],
                 moveOk = True, statResult = Inr 0, sendResult = None, cleanupOk = True\<rparr>"

definition envDelivered :: dlEnv where
  "envDelivered = \<lparr>jobId = ''job-3'', randomName = ''rnd-3'', cookiesExist = False,
                    ensureDirOk = True, toolRun = Inr [], readdirResult = Inr [''abc.mp4''],
                    moveOk = True, statResult = Inr 3000000, sendResult = None, cleanupOk = False\<rparr>"

text \<open>The session and the store while the job of the small candidate runs: the prompt
  message is gone.\<close>

definition sessionDownloading :: session where
  "sessionDownloading = sessionExample(''formatMessageId'' \<mapsto> JNull)"

definition storeDownloading :: sessionStore where
  "storeDownloading = [100 \<mapsto> sessionDownloading]"

section \<open>Proofs: the size formatter\<close>

declare showNat.simps [simp del]
declare scaleBytes.simps [simp del]

lemma digitChar_isDigit: "d < 10 \<Longrightarrow> isDigit (digitChar d)"
  unfolding isDigit_def digitChar_def by (rule nth_mem) simp

lemma showNat_digits: "\<forall>c\<in>set (showNat n). isDigit c"
proof (induction n rule: showNat.induct)
  case (1 n)
  show ?case
  proof (cases "n < 10")
    case True
    then show ?thesis by (subst showNat.simps) (simp add: digitChar_isDigit)
  next
    case False
    with 1 show ?thesis by (subst showNat.simps) (simp add: digitChar_isDigit)
  qed
qed

lemma showNat_nonempty: "showNat n \<noteq> []"
  by (subst showNat.simps) simp

lemma dot_not_digit: "\<not> isDigit (CHR ''.'')"
  by (simp add: isDigit_def)

lemma digits_no_dot: "\<forall>c\<in>set s. isDigit c \<Longrightarrow> \<forall>c\<in>set s. c \<noteq> CHR ''.''"
  using dot_not_digit by auto

lemma decimals_no_dot:
  assumes "\<forall>c\<in>set s. c \<noteq> CHR ''.''"
  shows "decimals s = 0"
proof -
  have e: "dropWhile (\<lambda>c. c \<noteq> CHR ''.'') s = []"
    using assms by (induction s) auto
  show ?thesis unfolding decimals_def e by simp
qed

lemma decimals_dot: "\<forall>c\<in>set s. c \<noteq> CHR ''.'' \<Longrightarrow> decimals (s @ CHR ''.'' # r) = length r"
  by (simp add: decimals_def dropWhile_append2)

lemma decimals_toFixed_0: "decimals (toFixed x 0) = 0"
proof -
  have "\<forall>c\<in>set (toFixed x 0). c \<noteq> CHR ''.''"
    using digits_no_dot [OF showNat_digits] by (auto simp: toFixed_def Let_def)
  then show ?thesis by (rule decimals_no_dot)
qed

lemma decimals_toFixed_1: "decimals (toFixed x 1) = 1"
proof -
  define n where "n = nat \<lfloor>\<bar>x\<bar> * 10 ^ 1 + 1 / 2\<rfloor>"
  define m where "m = showNat n"
  define m' where "m' = (if length m \<le> 1 then replicate (1 + 1 - length m) (CHR ''0'') @ m else m)"
  define s where "s = (if x < 0 then ''-'' else '''')"
  have md: "\<forall>c\<in>set m'. c \<noteq> CHR ''.''"
    using digits_no_dot [OF showNat_digits, of n] by (auto simp: m'_def m_def)
  have ml: "2 \<le> length m'"
    using showNat_nonempty [of n] by (auto simp: m'_def m_def)
  have eq: "toFixed x 1 = (s @ take (length m' - 1) m') @ CHR ''.'' # drop (length m' - 1) m'"
    by (simp add: toFixed_def Let_def s_def m'_def m_def n_def)
  have "\<forall>c\<in>set (s @ take (length m' - 1) m'). c \<noteq> CHR ''.''"
    using md by (auto simp: s_def dest: in_set_takeD)
  from decimals_dot [OF this] have "decimals (toFixed x 1) = length (drop (length m' - 1) m')"
    unfolding eq .
  with ml show ?thesis by simp
qed

lemma scaleBytes_spec:
  "i \<le> 4 \<Longrightarrow> \<exists>k. scaleBytes v i = (v / 1024 ^ k, i + k) \<and> i + k \<le> 4
       \<and> (\<forall>j<k. 1024 \<le> v / 1024 ^ j) \<and> (i + k < 4 \<longrightarrow> v / 1024 ^ k < 1024)"
proof (induction v i rule: scaleBytes.induct)
  case (1 v i)
  show ?case
  proof (cases "1024 \<le> v \<and> i < length units - 1")
    case True
    then have i4: "i + 1 \<le> 4" by (simp add: units_def)
    from 1(1) [OF True i4] obtain k where
      k: "scaleBytes (v / 1024) (i + 1) = (v / 1024 / 1024 ^ k, i + 1 + k)" "i + 1 + k \<le> 4"
         "\<forall>j<k. 1024 \<le> v / 1024 / 1024 ^ j" "i + 1 + k < 4 \<longrightarrow> v / 1024 / 1024 ^ k < 1024"
      by blast
    have "\<forall>j<Suc k. 1024 \<le> v / 1024 ^ j"
    proof (intro allI impI)
      fix j assume "j < Suc k"
      show "1024 \<le> v / 1024 ^ j"
      proof (cases j)
        case 0 with True show ?thesis by simp
      next
        case (Suc j')
        with \<open>j < Suc k\<close> k(3) show ?thesis by simp
      qed
    qed
    with k True show ?thesis
      by (subst scaleBytes.simps) (auto intro!: exI [of _ "Suc k"])
  next
    case False
    with 1(2) show ?thesis
      by (subst scaleBytes.simps) (auto intro!: exI [of _ 0] simp: units_def)
  qed
qed

text \<open>
  C9, as amended. For every positive byte count \<open>b\<close>, \<^verbatim>\<open>formatBytes\<close> divides by 1024 until
  the value is below 1024 or the unit is TB: the unit index \<open>k\<close> is at most 4, every
  earlier quotient was at least 1024, and below TB the scaled value \<open>b / 1024^k\<close> is
  under 1024. The text is the scaled value in \<^verbatim>\<open>toFixed\<close> notation followed by the unit
  \<open>B/KB/MB/GB/TB\<close>, with zero decimal places when the scaled value is at least 10 (ten
  included) or the unit is B, and with exactly one decimal place otherwise.
\<close>

theorem formatBytes_scaled:
  assumes "0 < b"
  shows "\<exists>k num. k \<le> 4 \<and> (\<forall>j<k. 1024 \<le> b / 1024 ^ j) \<and> (k < 4 \<longrightarrow> b / 1024 ^ k < 1024)
     \<and> formatBytes b = Some (num @ units ! k)
     \<and> num = toFixed (b / 1024 ^ k) (if 10 \<le> b / 1024 ^ k \<or> k = 0 then 0 else 1)
     \<and> decimals num = (if 10 \<le> b / 1024 ^ k \<or> k = 0 then 0 else 1)"
proof -
  from scaleBytes_spec [of 0 b] obtain k where
    k: "scaleBytes b 0 = (b / 1024 ^ k, k)" "k \<le> 4" "\<forall>j<k. 1024 \<le> b / 1024 ^ j"
       "k < 4 \<longrightarrow> b / 1024 ^ k < 1024"
    by auto
  let ?d = "if 10 \<le> b / 1024 ^ k \<or> k = 0 then 0 else 1 :: nat"
  have "formatBytes b = Some (toFixed (b / 1024 ^ k) ?d @ units ! k)"
    using assms k(1) by (simp add: formatBytes_def)
  moreover have "decimals (toFixed (b / 1024 ^ k) ?d) = ?d"
    using decimals_toFixed_0 [of "b / 1024 ^ k"] decimals_toFixed_1 [of "b / 1024 ^ k"] by simp
  ultimately show ?thesis using k(2,3,4) by blast
qed

text \<open>The theorem at 25 megabytes: the text is \<open>25MB\<close>, unit MB, no decimal place.\<close>

theorem formatBytes_25MB_witness:
  "(0::rat) < 25 * 1024 * 1024 \<and> formatBytes (25 * 1024 * 1024) = Some ''25MB'' \<and> decimals ''25'' = 0
   \<and> (\<exists>k num. k \<le> 4 \<and> (\<forall>j<k. 1024 \<le> (25 * 1024 * 1024 :: rat) / 1024 ^ j)
        \<and> formatBytes (25 * 1024 * 1024) = Some (num @ units ! k) \<and> decimals num \<le> 1)"
proof -
  have pos: "(0::rat) < 25 * 1024 * 1024" by simp
  have ev: "formatBytes (25 * 1024 * 1024) = Some ''25MB''" by code_simp
  have d: "decimals ''25'' = 0" by code_simp
  from formatBytes_scaled [OF pos] obtain k num where
    "k \<le> 4" "\<forall>j<k. 1024 \<le> (25 * 1024 * 1024 :: rat) / 1024 ^ j"
    "formatBytes (25 * 1024 * 1024) = Some (num @ units ! k)"
    "decimals num = (if 10 \<le> (25 * 1024 * 1024 :: rat) / 1024 ^ k \<or> k = 0 then 0 else 1)"
    by blast
  then have "\<exists>k num. k \<le> 4 \<and> (\<forall>j<k. 1024 \<le> (25 * 1024 * 1024 :: rat) / 1024 ^ j)
        \<and> formatBytes (25 * 1024 * 1024) = Some (num @ units ! k) \<and> decimals num \<le> 1"
    by (intro exI [of _ k] exI [of _ num]) (simp split: if_splits)
  with pos ev d show ?thesis by blast
qed

text \<open>
  C9 as stated fails at 10240 bytes: the scaled value is exactly 10 at unit KB, which is
  neither above 10 nor at the byte scale, so the claim asks for one decimal place
  (\<open>10.0KB\<close>); the code tests \<^verbatim>\<open>value >= 10\<close> and prints \<open>10KB\<close>.
\<close>

theorem formatBytes_ten_counterexample:
  "scaleBytes 10240 0 = (10, 1) \<and> \<not> (10 < (10::rat)) \<and> formatBytes 10240 = Some ''10KB''
   \<and> decimals ''10'' = 0 \<and> toFixed 10 1 = ''10.0''
   \<and> formatBytes 10240 \<noteq> Some (toFixed 10 1 @ ''KB'')"
  by code_simp

section \<open>Proofs: the format selector\<close>

lemma dedupeInv_init: "dedupeInv t ([], Map.empty)"
  by (simp add: dedupeInv_def)

lemma dedupeInv_step:
  assumes "dedupeInv t st"
  shows "dedupeInv t (dedupeStep t st f)"
proof -
  obtain d m where st: "st = (d, m)" by (cases st)
  from assms have a: "\<And>k i. m k = Some i \<Longrightarrow> i < length d \<and> bucketKey t (d ! i) = k"
    and b: "\<And>i. i < length d \<Longrightarrow> m (bucketKey t (d ! i)) = Some i"
    by (auto simp: dedupeInv_def st)
  show ?thesis
  proof (cases "m (bucketKey t f)")
    case None
    have "dedupeStep t st f = (d @ [f], m(bucketKey t f \<mapsto> length d))"
      using None by (simp add: dedupeStep_def st)
    moreover have "dedupeInv t (d @ [f], m(bucketKey t f \<mapsto> length d))"
    proof -
      have old_key: "bucketKey t (d ! i) \<noteq> bucketKey t f" if "i < length d" for i
        using b [OF that] None by auto
      have "\<forall>k i. (m(bucketKey t f \<mapsto> length d)) k = Some i
              \<longrightarrow> i < length (d @ [f]) \<and> bucketKey t ((d @ [f]) ! i) = k"
        using a by (auto simp: nth_append less_Suc_eq split: if_splits)
      moreover have "\<forall>i<length (d @ [f]).
              (m(bucketKey t f \<mapsto> length d)) (bucketKey t ((d @ [f]) ! i)) = Some i"
        using b old_key by (auto simp: nth_append less_Suc_eq)
      ultimately show ?thesis by (simp add: dedupeInv_def)
    qed
    ultimately show ?thesis by simp
  next
    case (Some i)
    from a [OF Some] have i: "i < length d" and ki: "bucketKey t (d ! i) = bucketKey t f" by auto
    have same: "bucketKey t (d[i := f] ! j) = bucketKey t (d ! j)" if "j < length d" for j
      using that ki by (cases "j = i") simp_all
    have inv': "dedupeInv t (d[i := f], m)"
      using a b by (simp add: dedupeInv_def same)
    have "dedupeStep t st f = (d[i := f], m) \<or> dedupeStep t st f = (d, m)"
      using Some by (simp add: dedupeStep_def st Let_def)
    with inv' assms st show ?thesis by auto
  qed
qed

lemma dedupeInv_foldl: "dedupeInv t st \<Longrightarrow> dedupeInv t (foldl (dedupeStep t) st fs)"
  by (induction fs arbitrary: st) (simp_all add: dedupeInv_step)

lemma dedupeInv_distinct:
  assumes "dedupeInv t (d, m)"
  shows "distinct (map (bucketKey t) d)"
proof -
  from assms have b: "\<And>i. i < length d \<Longrightarrow> m (bucketKey t (d ! i)) = Some i"
    by (auto simp: dedupeInv_def)
  show ?thesis
  proof (unfold distinct_conv_nth, intro allI impI)
    fix i j
    assume "i < length (map (bucketKey t) d)" "j < length (map (bucketKey t) d)" "i \<noteq> j"
    then show "map (bucketKey t) d ! i \<noteq> map (bucketKey t) d ! j"
      using b [of i] b [of j] by auto
  qed
qed

lemma dedupe_distinct: "distinct (map (bucketKey t) (dedupe t fs))"
proof -
  have "dedupeInv t (foldl (dedupeStep t) ([], Map.empty) fs)"
    by (rule dedupeInv_foldl [OF dedupeInv_init])
  then show ?thesis
    unfolding dedupe_def by (cases "foldl (dedupeStep t) ([], Map.empty) fs") (auto dest: dedupeInv_distinct)
qed

lemma dedupeStep_set: "set (fst (dedupeStep t st f)) \<subseteq> insert f (set (fst st))"
proof -
  obtain d m where st: "st = (d, m)" by (cases st)
  show ?thesis
    unfolding st dedupeStep_def
    by (auto simp: Let_def split: option.splits dest: set_update_subset_insert [THEN subsetD])
qed

lemma dedupe_foldl_set: "set (fst (foldl (dedupeStep t) st fs)) \<subseteq> set (fst st) \<union> set fs"
proof (induction fs arbitrary: st)
  case Nil
  show ?case by simp
next
  case (Cons f fs)
  from Cons.IH [of "dedupeStep t st f"] dedupeStep_set [of t st f]
  show ?case by auto
qed

lemma dedupe_set: "set (dedupe t fs) \<subseteq> set fs"
  using dedupe_foldl_set [of t "([], Map.empty)" fs] by (simp add: dedupe_def)

lemma decorate_fields:
  "fmt_id (decorate t d f) = fmt_id f"
  "resolution (decorate t d f) = resolution f"
  "fmt_note (decorate t d f) = fmt_note f"
  "meta (decorate t d f) = meta f"
  "fmt_type (decorate t d f) = fmt_type f"
  by (simp_all add: decorate_def Let_def)

lemma determine_decorate:
  "determineAudioBitrateKbps (decorate t d f) = determineAudioBitrateKbps f"
  by (simp add: determineAudioBitrateKbps_def metaAbr_def metaTbr_def decorate_fields)

lemma bucketKey_decorate: "bucketKey t (decorate t' d f) = bucketKey t f"
  by (simp add: bucketKey_def determine_decorate decorate_fields split: option.splits)

text \<open>
  C7, as amended. No two entries of the selector's result share the bucket key the code
  deduplicates by: for audio \<open>audio-\<close> followed by the nearest bitrate preset when a bitrate
  is declared or written in the note and by the id of the format otherwise, for video the
  resolution string, or the id when the resolution is empty.
\<close>

theorem selector_keys_distinct:
  "distinct (map (bucketKey t) (filterWellKnownFormats fs t dur))"
proof -
  let ?d = "dedupe t (sortFiltered t (filter (keepFormat t) fs))"
  have "map (bucketKey t) (filterWellKnownFormats fs t dur) = take 6 (map (bucketKey t) ?d)"
    by (simp add: filterWellKnownFormats_def Let_def bucketKey_decorate comp_def take_map)
  then show ?thesis by (simp add: dedupe_distinct)
qed

text \<open>
  C7 as stated fails: with the bitrate preset alone as the key of an audio entry, two
  formats without any bitrate information are both kept. Neither has a preset, and both
  are offered under the default label of 192 kbps.
\<close>

theorem selector_preset_key_counterexample:
  "map fmt_id (filterWellKnownFormats [formatA1, formatA2] Audio None) = [''a1'', ''a2'']
   \<and> map (specBucketKey Audio) (filterWellKnownFormats [formatA1, formatA2] Audio None)
       = [Inl None, Inl None]
   \<and> \<not> distinct (map (specBucketKey Audio) (filterWellKnownFormats [formatA1, formatA2] Audio None))
   \<and> map displayLabel (filterWellKnownFormats [formatA1, formatA2] Audio None)
       = [''MP3 192 kbps'', ''MP3 192 kbps'']
   \<and> map (bucketKey Audio) (filterWellKnownFormats [formatA1, formatA2] Audio None)
       = [''audio-a1'', ''audio-a2'']"
  by code_simp

text \<open>
  C8. For every candidate list, requested kind and options, the selector returns at most
  6 entries, and the kind of every entry is the requested kind.
\<close>

theorem selector_bounded_and_kind:
  "length (filterWellKnownFormats fs t dur) \<le> 6
   \<and> (\<forall>c \<in> set (filterWellKnownFormats fs t dur). fmt_type c = t)"
proof -
  let ?f = "filter (keepFormat t) fs"
  let ?d = "dedupe t (sortFiltered t ?f)"
  have "set (take 6 ?d) \<subseteq> set ?f"
    using set_take_subset [of 6 ?d] dedupe_set [of t "sortFiltered t ?f"]
    by (auto simp: sortFiltered_def)
  moreover have "\<forall>f\<in>set ?f. fmt_type f = t"
    by (auto simp: keepFormat_def split: if_splits)
  ultimately have "\<forall>f\<in>set (take 6 ?d). fmt_type f = t" by blast
  then show ?thesis
    by (simp add: filterWellKnownFormats_def Let_def decorate_fields)
qed

text \<open>The theorem on the first end-to-end scenario: one entry, and it is audio.\<close>

theorem selector_bounded_and_kind_witness:
  "length (filterWellKnownFormats [format140] Audio (Some 187)) = 1
   \<and> hd (filterWellKnownFormats [format140] Audio (Some 187))
         \<in> set (filterWellKnownFormats [format140] Audio (Some 187))
   \<and> fmt_type (hd (filterWellKnownFormats [format140] Audio (Some 187))) = Audio
   \<and> displayLabel (hd (filterWellKnownFormats [format140] Audio (Some 187)))
       = ''MP3 128 kbps (~2.9MB)''"
proof -
  have len: "length (filterWellKnownFormats [format140] Audio (Some 187)) = 1"
    by code_simp
  then have mem: "hd (filterWellKnownFormats [format140] Audio (Some 187))
      \<in> set (filterWellKnownFormats [format140] Audio (Some 187))"
    by (cases "filterWellKnownFormats [format140] Audio (Some 187)") simp_all
  have lbl: "displayLabel (hd (filterWellKnownFormats [format140] Audio (Some 187)))
       = ''MP3 128 kbps (~2.9MB)''"
    by code_simp
  from selector_bounded_and_kind [of "[format140]" Audio "Some 187"] mem
  have "fmt_type (hd (filterWellKnownFormats [format140] Audio (Some 187))) = Audio"
    by blast
  with len mem lbl show ?thesis by blast
qed


section \<open>Proofs: the probe\<close>

lemma fetchInfo_absent:
  "filter (\<lambda>s. s \<noteq> []) (map trim (splitLines out)) = [] \<Longrightarrow>
     fetchInfo jsonParse (Inr out) = Inl MetadataEmpty"
  by (simp add: fetchInfo_def)

lemma fetchInfo_unparseable:
  "filter (\<lambda>s. s \<noteq> []) (map trim (splitLines out)) = line # rest \<Longrightarrow> jsonParse line = None \<Longrightarrow>
     fetchInfo jsonParse (Inr out) = Inl JsonSyntaxError"
  by (simp add: fetchInfo_def)

lemma listFormats_fetch_fails:
  "fetchInfo jsonParse infoRun = Inl e \<Longrightarrow> \<exists>e'. listFormats jsonParse listRun infoRun = Inl e'"
  by (cases listRun) (simp_all add: listFormats_def)

text \<open>
  C4, as amended. If the JSON metadata document is absent (the metadata output has no
  non-blank line) or unparseable, or either subprocess fails, \<^verbatim>\<open>listFormats\<close> fails with
  an error and returns no probe result. If the textual listing parses to zero entries
  while the metadata is read, \<^verbatim>\<open>listFormats\<close> does not fail: it returns the probe result
  with title, url and duration of the metadata and an empty list of formats.
\<close>

theorem listFormats_failures:
  "(listRun = Inl e \<or> infoRun = Inl e \<longrightarrow> (\<exists>e'. listFormats jsonParse listRun infoRun = Inl e'))
   \<and> (infoRun = Inr out \<and> filter (\<lambda>s. s \<noteq> []) (map trim (splitLines out)) = []
        \<longrightarrow> (\<exists>e'. listFormats jsonParse listRun infoRun = Inl e'))
   \<and> (infoRun = Inr out \<and> filter (\<lambda>s. s \<noteq> []) (map trim (splitLines out)) = line # rest
        \<and> jsonParse line = None
        \<longrightarrow> (\<exists>e'. listFormats jsonParse listRun infoRun = Inl e'))
   \<and> (listRun = Inr listOutput \<and> parseFormatList listOutput = []
        \<and> fetchInfo jsonParse infoRun = Inr i
        \<longrightarrow> listFormats jsonParse listRun infoRun
            = Inr \<lparr>title = info_title i, webpageUrl = info_webpage_url i,
                   durationSeconds = (if truthy (info_duration i) then info_duration i else None),
                   formats = []\<rparr>)"
proof (intro conjI impI)
  assume "listRun = Inl e \<or> infoRun = Inl e"
  then show "\<exists>e'. listFormats jsonParse listRun infoRun = Inl e'"
  proof
    assume "listRun = Inl e"
    then show ?thesis by (simp add: listFormats_def)
  next
    assume "infoRun = Inl e"
    then have "fetchInfo jsonParse infoRun = Inl e" by (simp add: fetchInfo_def)
    then show ?thesis by (rule listFormats_fetch_fails)
  qed
next
  assume "infoRun = Inr out \<and> filter (\<lambda>s. s \<noteq> []) (map trim (splitLines out)) = []"
  then have "fetchInfo jsonParse infoRun = Inl MetadataEmpty"
    by (simp add: fetchInfo_absent)
  then show "\<exists>e'. listFormats jsonParse listRun infoRun = Inl e'"
    by (rule listFormats_fetch_fails)
next
  assume "infoRun = Inr out \<and> filter (\<lambda>s. s \<noteq> []) (map trim (splitLines out)) = line # rest
        \<and> jsonParse line = None"
  then have "fetchInfo jsonParse infoRun = Inl JsonSyntaxError"
    by (simp add: fetchInfo_unparseable)
  then show "\<exists>e'. listFormats jsonParse listRun infoRun = Inl e'"
    by (rule listFormats_fetch_fails)
next
  assume "listRun = Inr listOutput \<and> parseFormatList listOutput = []
        \<and> fetchInfo jsonParse infoRun = Inr i"
  then show "listFormats jsonParse listRun infoRun
            = Inr \<lparr>title = info_title i, webpageUrl = info_webpage_url i,
                   durationSeconds = (if truthy (info_duration i) then info_duration i else None),
                   formats = []\<rparr>"
    by (simp add: listFormats_def)
qed

text \<open>The theorem at concrete probes: a blank metadata output and a metadata output
  that is not JSON make the probe fail; an empty listing with the metadata \<^verbatim>\<open>{}\<close> gives
  a result without formats.\<close>

theorem listFormats_failures_witness:
  "(\<exists>e'. listFormats jsonParseExample (Inr ''140 m4a audio only | 128k'') (Inr ''  '') = Inl e')
   \<and> (\<exists>e'. listFormats jsonParseExample (Inr ''140 m4a audio only | 128k'') (Inr ''not json'') = Inl e')
   \<and> (\<exists>e'. listFormats jsonParseExample (Inl (ToolExit 1)) (Inr ''{}'') = Inl e')
   \<and> listFormats jsonParseExample (Inr ''ID EXT'') (Inr ''{}'')
       = Inr \<lparr>title = None, webpageUrl = None, durationSeconds = None, formats = []\<rparr>"
proof -
  note t = listFormats_failures [where jsonParse = jsonParseExample]
  have a: "filter (\<lambda>s. s \<noteq> []) (map trim (splitLines ''  '')) = []" by code_simp
  have b: "filter (\<lambda>s. s \<noteq> []) (map trim (splitLines ''not json'')) = [''not json'']" by code_simp
  have b': "jsonParseExample ''not json'' = None" by code_simp
  have c: "parseFormatList ''ID EXT'' = []" by code_simp
  have c': "fetchInfo jsonParseExample (Inr ''{}'') = Inr emptyInfo" by code_simp
  have 1: "\<exists>e'. listFormats jsonParseExample (Inr ''140 m4a audio only | 128k'') (Inr ''  '') = Inl e'"
    using t [of "Inr ''140 m4a audio only | 128k''" _ "Inr ''  ''" "''  ''"] a by blast
  have 2: "\<exists>e'. listFormats jsonParseExample (Inr ''140 m4a audio only | 128k'') (Inr ''not json'') = Inl e'"
    using t [of "Inr ''140 m4a audio only | 128k''" _ "Inr ''not json''" "''not json''" "''not json''" "[]"] b b'
    by blast
  have 3: "\<exists>e'. listFormats jsonParseExample (Inl (ToolExit 1)) (Inr ''{}'') = Inl e'"
    using t [of "Inl (ToolExit 1)" "ToolExit 1" "Inr ''{}''"] by blast
  have "listFormats jsonParseExample (Inr ''ID EXT'') (Inr ''{}'')
       = Inr \<lparr>title = info_title emptyInfo, webpageUrl = info_webpage_url emptyInfo,
              durationSeconds = (if truthy (info_duration emptyInfo) then info_duration emptyInfo else None),
              formats = []\<rparr>"
    using t [of "Inr ''ID EXT''" _ "Inr ''{}''" _ _ _ "''ID EXT''" emptyInfo] c c' by blast
  then have 4: "listFormats jsonParseExample (Inr ''ID EXT'') (Inr ''{}'')
       = Inr \<lparr>title = None, webpageUrl = None, durationSeconds = None, formats = []\<rparr>"
    by (simp add: emptyInfo_def truthy_def)
  from 1 2 3 4 show ?thesis by blast
qed

text \<open>
  C4 as stated fails in its first case: a listing that parses to zero entries (here the
  empty output) does not make \<^verbatim>\<open>listFormats\<close> fail when the metadata is read; the
  result is returned with no formats.
\<close>

theorem listFormats_empty_listing_counterexample:
  "parseFormatList [] = []
   \<and> listFormats jsonParseExample (Inr []) (Inr ''{}'')
       = Inr \<lparr>title = None, webpageUrl = None, durationSeconds = None, formats = []\<rparr>
   \<and> \<not> isl (listFormats jsonParseExample (Inr []) (Inr ''{}''))"
  by code_simp

section \<open>Proofs: the session store\<close>

text \<open>
  C10. For a conversation key with no stored session, \<^verbatim>\<open>update(key, u)\<close> does not fail
  and does not leave the store as it was: it stores \<open>u\<close> merged into the empty object (the
  result of \<open>u\<close> on the empty object when \<open>u\<close> is a function), returns that entry, a later
  \<^verbatim>\<open>get(key)\<close> returns it, and no other key changes.
\<close>

theorem update_missing_session:
  assumes "get sessions chatId = None"
  shows "get (fst (update sessions chatId (UObj u))) chatId = Some (Map.empty ++ u)
     \<and> Map.empty ++ u = u
     \<and> snd (update sessions chatId (UObj u)) = Some (Map.empty ++ u)
     \<and> fst (update sessions chatId (UObj u)) \<noteq> sessions
     \<and> get (fst (update sessions chatId (UFun f))) chatId = Some (Map.empty ++ f Map.empty)
     \<and> (\<forall>c. c \<noteq> chatId \<longrightarrow> get (fst (update sessions chatId (UObj u))) c = get sessions c)"
proof -
  from assms have none: "sessions chatId = None" by (simp add: get_def)
  have "fst (update sessions chatId (UObj u)) chatId \<noteq> sessions chatId"
    by (simp add: update_def Let_def none)
  then have "fst (update sessions chatId (UObj u)) \<noteq> sessions" by metis
  then show ?thesis
    by (simp add: update_def get_def Let_def none)
qed

text \<open>The theorem on a session that was deleted: a later update of one property leaves
  a session with that property alone.\<close>

theorem update_missing_session_witness:
  "get (delete [7 \<mapsto> [''url'' \<mapsto> JStr ''http://a'']] 7) 7 = None
   \<and> get (fst (update (delete [7 \<mapsto> [''url'' \<mapsto> JStr ''http://a'']] 7) 7
                 (UObj [''formatMessageId'' \<mapsto> JNum 55]))) 7
       = Some [''formatMessageId'' \<mapsto> JNum 55]"
proof -
  have none: "get (delete [7 \<mapsto> [''url'' \<mapsto> JStr ''http://a'']] 7) 7 = None"
    by (simp add: get_def delete_def)
  from update_missing_session [OF none, of "[''formatMessageId'' \<mapsto> JNum 55]"]
  have "get (fst (update (delete [7 \<mapsto> [''url'' \<mapsto> JStr ''http://a'']] 7) 7
                 (UObj [''formatMessageId'' \<mapsto> JNum 55]))) 7
       = Some [''formatMessageId'' \<mapsto> JNum 55]"
    by metis
  with none show ?thesis by blast
qed

section \<open>Proofs: the queue\<close>

lemma runEvents_snoc: "runEvents c (evs @ [e]) = step (runEvents c evs) e"
  by (simp add: runEvents_def)

lemma enqueuedTasks_snoc:
  "enqueuedTasks (evs @ [e]) = enqueuedTasks evs @ (case e of Enqueue task \<Rightarrow> [task] | Complete job ok \<Rightarrow> [])"
  by (induction evs rule: enqueuedTasks.induct) (auto split: event.splits)

lemma length_remove1_mem:
  assumes "x \<in> set xs"
  shows "int (length (remove1 x xs)) = int (length xs) - 1"
proof -
  from assms have "0 < length xs" by (rule length_pos_if_in_set)
  then have "int (length xs - 1) = int (length xs) - 1" by linarith
  with assms show ?thesis by (simp add: length_remove1)
qed

lemma queue_inv:
  "concurrency (runEvents c evs) = max c 1
   \<and> activeCount (runEvents c evs) = int (length (inFlight (runEvents c evs)))
   \<and> activeCount (runEvents c evs) \<le> concurrency (runEvents c evs)
   \<and> startLog (runEvents c evs) @ queue (runEvents c evs) = enqueuedTasks evs
   \<and> (queue (runEvents c evs) \<noteq> [] \<longrightarrow> activeCount (runEvents c evs) = concurrency (runEvents c evs))"
proof (induction evs rule: rev_induct)
  case Nil
  show ?case by (simp add: runEvents_def newQueue_def)
next
  case (snoc e evs)
  let ?q = "runEvents c evs"
  from snoc have c: "concurrency ?q = max c 1"
    and a: "activeCount ?q = int (length (inFlight ?q))"
    and b: "activeCount ?q \<le> concurrency ?q"
    and l: "startLog ?q @ queue ?q = enqueuedTasks evs"
    and w: "queue ?q \<noteq> [] \<longrightarrow> activeCount ?q = concurrency ?q" by auto
  show ?case
  proof (cases e)
    case (Enqueue task)
    with c a b l w show ?thesis
      by (cases "queue ?q = []")
         (auto simp: runEvents_snoc enqueuedTasks_snoc enqueue_def runJob_def Let_def)
  next
    case (Complete job ok)
    show ?thesis
    proof (cases "job \<in> set (inFlight ?q)")
      case False
      with Complete c a b l w show ?thesis
        by (simp add: runEvents_snoc enqueuedTasks_snoc)
    next
      case True
      note len = length_remove1_mem [OF True]
      show ?thesis
      proof (cases "queue ?q")
        case Nil
        with Complete True c a b l w len show ?thesis
          by (simp add: runEvents_snoc enqueuedTasks_snoc settle_def Let_def)
      next
        case (Cons nxt rest)
        with Complete True c a b l w len show ?thesis
          by (simp add: runEvents_snoc enqueuedTasks_snoc settle_def runJob_def Let_def)
      qed
    qed
  qed
qed

text \<open>
  C6. After every sequence of \<^verbatim>\<open>enqueue\<close> calls and task completions on a queue built
  with bound \<open>c\<close> (the queue's bound \<open>C\<close> is \<open>max c 1\<close>): the active count is the number of
  tasks in flight and never exceeds \<open>C\<close>; the tasks started so far followed by the waiting
  ones are the enqueued tasks in the order they were enqueued (first in, first out); a
  further \<^verbatim>\<open>enqueue\<close> starts its task at once with position 0 exactly when fewer than \<open>C\<close>
  tasks are in flight, and otherwise appends it to the wait list and reports its 1-based
  position among the waiters; the completion of a task in flight, resolved or rejected,
  releases its slot and starts the head of the wait list, if there is one.
\<close>

theorem queue_fifo_bounded:
  assumes "q = runEvents c evs"
  shows "concurrency q = max c 1
     \<and> activeCount q = int (length (inFlight q))
     \<and> int (length (inFlight q)) \<le> concurrency q
     \<and> startLog q @ queue q = enqueuedTasks evs
     \<and> (queue q \<noteq> [] \<longrightarrow> int (length (inFlight q)) = concurrency q)
     \<and> (int (length (inFlight q)) < concurrency q \<longrightarrow>
          enqueue q task = (q\<lparr>activeCount := activeCount q + 1,
                               inFlight := inFlight q @ [task],
                               startLog := startLog q @ [task]\<rparr>,
                            \<lparr>position = 0, queued = False\<rparr>))
     \<and> (\<not> int (length (inFlight q)) < concurrency q \<longrightarrow>
          enqueue q task = (q\<lparr>queue := queue q @ [task]\<rparr>,
                            \<lparr>position = length (queue q) + 1, queued = True\<rparr>))
     \<and> (job \<in> set (inFlight q) \<longrightarrow> queue q = [] \<longrightarrow>
          step q (Complete job ok) = q\<lparr>activeCount := int (length (inFlight q)) - 1,
                                          inFlight := remove1 job (inFlight q)\<rparr>)
     \<and> (job \<in> set (inFlight q) \<longrightarrow> queue q = nxt # rest \<longrightarrow>
          step q (Complete job ok) = q\<lparr>activeCount := int (length (inFlight q)),
                                          queue := rest,
                                          inFlight := remove1 job (inFlight q) @ [nxt],
                                          startLog := startLog q @ [nxt]\<rparr>)"
proof -
  from queue_inv [of c evs] assms have c: "concurrency q = max c 1"
    and a: "activeCount q = int (length (inFlight q))"
    and b: "activeCount q \<le> concurrency q"
    and l: "startLog q @ queue q = enqueuedTasks evs"
    and w: "queue q \<noteq> [] \<longrightarrow> int (length (inFlight q)) = concurrency q" by auto
  have e1: "int (length (inFlight q)) < concurrency q \<longrightarrow>
          enqueue q task = (q\<lparr>activeCount := activeCount q + 1,
                               inFlight := inFlight q @ [task],
                               startLog := startLog q @ [task]\<rparr>,
                            \<lparr>position = 0, queued = False\<rparr>)"
    using a by (simp add: enqueue_def runJob_def Let_def)
  have e2: "\<not> int (length (inFlight q)) < concurrency q \<longrightarrow>
          enqueue q task = (q\<lparr>queue := queue q @ [task]\<rparr>,
                            \<lparr>position = length (queue q) + 1, queued = True\<rparr>)"
    using a by (simp add: enqueue_def Let_def)
  have s1: "job \<in> set (inFlight q) \<longrightarrow> queue q = [] \<longrightarrow>
          step q (Complete job ok) = q\<lparr>activeCount := int (length (inFlight q)) - 1,
                                          inFlight := remove1 job (inFlight q)\<rparr>"
    using a by (simp add: settle_def Let_def)
  have s2: "job \<in> set (inFlight q) \<longrightarrow> queue q = nxt # rest \<longrightarrow>
          step q (Complete job ok) = q\<lparr>activeCount := int (length (inFlight q)),
                                          queue := rest,
                                          inFlight := remove1 job (inFlight q) @ [nxt],
                                          startLog := startLog q @ [nxt]\<rparr>"
    using a by (simp add: settle_def runJob_def Let_def)
  from c a b l w e1 e2 s1 s2 show ?thesis by simp
qed

text \<open>The theorem on a queue of bound 2: the third task waits at position 1, and the
  completion of the first task (here a rejection) starts it.\<close>

theorem queue_fifo_bounded_witness:
  "inFlight (runEvents 2 [Enqueue (10::nat), Enqueue 20]) = [10, 20]
   \<and> snd (enqueue (runEvents 2 [Enqueue (10::nat), Enqueue 20]) 30) = \<lparr>position = 1, queued = True\<rparr>
   \<and> queue (runEvents 2 [Enqueue (10::nat), Enqueue 20, Enqueue 30]) = [30]
   \<and> inFlight (step (runEvents 2 [Enqueue (10::nat), Enqueue 20, Enqueue 30]) (Complete 10 False)) = [20, 30]
   \<and> startLog (step (runEvents 2 [Enqueue (10::nat), Enqueue 20, Enqueue 30]) (Complete 10 False)) = [10, 20, 30]"
proof -
  let ?q0 = "runEvents 2 [Enqueue (10::nat), Enqueue 20]"
  let ?q1 = "runEvents 2 [Enqueue (10::nat), Enqueue 20, Enqueue 30]"
  have i0: "inFlight ?q0 = [10, 20]" by code_simp
  have c0: "concurrency ?q0 = 2" by code_simp
  have w0: "queue ?q0 = []" by code_simp
  have full: "\<not> int (length (inFlight ?q0)) < concurrency ?q0" by (simp add: i0 c0)
  from queue_fifo_bounded [OF refl, of 2 "[Enqueue (10::nat), Enqueue 20]" 30] full
  have "enqueue ?q0 30 = (?q0\<lparr>queue := queue ?q0 @ [30]\<rparr>,
                          \<lparr>position = length (queue ?q0) + 1, queued = True\<rparr>)"
    by blast
  then have e: "snd (enqueue ?q0 30) = \<lparr>position = 1, queued = True\<rparr>" by (simp add: w0)
  have i1: "inFlight ?q1 = [10, 20]" by code_simp
  have w1: "queue ?q1 = [30]" by code_simp
  have s1: "startLog ?q1 = [10, 20]" by code_simp
  have m: "10 \<in> set (inFlight ?q1)" by (simp add: i1)
  from queue_fifo_bounded [OF refl, of 2 "[Enqueue (10::nat), Enqueue 20, Enqueue 30]" _ 10 False 30 "[]"] m w1
  have "step ?q1 (Complete 10 False)
        = ?q1\<lparr>activeCount := int (length (inFlight ?q1)), queue := [],
               inFlight := remove1 10 (inFlight ?q1) @ [30], startLog := startLog ?q1 @ [30]\<rparr>"
    by blast
  then have "inFlight (step ?q1 (Complete 10 False)) = [20, 30]"
    and "startLog (step ?q1 (Complete 10 False)) = [10, 20, 30]"
    by (simp_all add: i1 s1)
  with i0 e w1 show ?thesis by blast
qed

section \<open>Proofs: the chat handlers\<close>

lemma mathRound_nonneg: "0 \<le> x \<Longrightarrow> 0 \<le> mathRound x"
  by (simp add: mathRound_def)

lemma MAX_FILE_SIZE_BYTES_nonneg: "0 \<le> MAX_FILE_SIZE_BYTES cfg"
  by (simp add: MAX_FILE_SIZE_BYTES_def mathRound_nonneg)

lemma onTypeAction_mismatch:
  assumes "get sessions (chat_id c) = Some session"
    and "getField session ''userId'' \<noteq> userIdVal (from_id c)"
  shows "onTypeAction cfg jsonParse tenv sessions c t
         = (sessions, if isAuthorized cfg (from_id c)
                      then [AnswerCbQuery ''No active request. Send a link first.'' True]
                      else AnswerCbQuery ''Not allowed'' True # handleUnauthorized c)"
  using assms by (simp add: onTypeAction_def)

lemma onFmtAction_mismatch:
  assumes "get sessions (chat_id c) = Some session"
    and "getField session ''userId'' \<noteq> userIdVal (from_id c)"
  shows "onFmtAction cfg fenv sessions q c t index
         = (sessions, q, if isAuthorized cfg (from_id c)
                         then [AnswerCbQuery ''Request expired. Send the link again.'' True]
                         else AnswerCbQuery ''Not allowed'' True # handleUnauthorized c)"
  using assms by (simp add: onFmtAction_def)

lemma onText_replaces:
  assumes "isAuthorized cfg (from_id c)" and "sanitizeUrl msg = Some url"
  shows "get (fst (onText cfg now mid sessions c msg)) (chat_id c)
         = Some [''createdAt'' \<mapsto> JNum now, ''url'' \<mapsto> JStr url, ''userId'' \<mapsto> userIdVal (from_id c),
                 ''selectionMessageId'' \<mapsto> JNum (of_int mid), ''formatMessageId'' \<mapsto> JNull]"
  using assms
  by (cases "get sessions (chat_id c)")
     (simp_all add: onText_def create_def update_def get_def delete_def Let_def)

lemma onText_invalid:
  assumes "isAuthorized cfg (from_id c)" and "sanitizeUrl msg = None"
    and "get sessions (chat_id c) = Some session"
  shows "fst (onText cfg now mid sessions c msg) = delete sessions (chat_id c)"
  using assms by (simp add: onText_def)

text \<open>
  C1, as amended. For the kind choice and the format choice, a call by an identity that
  differs from the owner of the stored session is rejected: the store (and the queue) is
  returned unchanged, and all the caller gets is a fixed answer that does not depend on
  the session. A URL submission and the \<^verbatim>\<open>/cancel\<close> command check the allow-list only:
  from an identity that is not allowed they are rejected with the store unchanged; from
  an allowed identity that is not the owner, \<^verbatim>\<open>/cancel\<close> deletes the session and a URL
  submission deletes it and, for a valid URL, stores a new session owned by the
  submitter. (Nothing is said here about the Cancel button.)
\<close>

theorem owner_mismatch:
  assumes "get sessions (chat_id c) = Some session"
    and "getField session ''userId'' \<noteq> userIdVal (from_id c)"
  shows "onTypeAction cfg jsonParse tenv sessions c t
         = (sessions, if isAuthorized cfg (from_id c)
                      then [AnswerCbQuery ''No active request. Send a link first.'' True]
                      else AnswerCbQuery ''Not allowed'' True # handleUnauthorized c)
     \<and> onFmtAction cfg fenv sessions q c t index
         = (sessions, q, if isAuthorized cfg (from_id c)
                         then [AnswerCbQuery ''Request expired. Send the link again.'' True]
                         else AnswerCbQuery ''Not allowed'' True # handleUnauthorized c)
     \<and> (\<not> isAuthorized cfg (from_id c) \<longrightarrow>
          onText cfg now mid sessions c msg = (sessions, handleUnauthorized c)
          \<and> onCancelCommand cfg sessions c = (sessions, handleUnauthorized c))
     \<and> (isAuthorized cfg (from_id c) \<longrightarrow>
          fst (onCancelCommand cfg sessions c) = delete sessions (chat_id c))
     \<and> (isAuthorized cfg (from_id c) \<longrightarrow> sanitizeUrl msg = None \<longrightarrow>
          fst (onText cfg now mid sessions c msg) = delete sessions (chat_id c))
     \<and> (isAuthorized cfg (from_id c) \<longrightarrow> sanitizeUrl msg = Some url \<longrightarrow>
          get (fst (onText cfg now mid sessions c msg)) (chat_id c)
          = Some [''createdAt'' \<mapsto> JNum now, ''url'' \<mapsto> JStr url,
                  ''userId'' \<mapsto> userIdVal (from_id c),
                  ''selectionMessageId'' \<mapsto> JNum (of_int mid), ''formatMessageId'' \<mapsto> JNull])"
  using onTypeAction_mismatch [OF assms] onFmtAction_mismatch [OF assms]
    onText_replaces [of cfg c msg url now mid sessions] onText_invalid [of cfg c msg sessions session now mid]
    assms(1)
  by (simp add: onText_def onCancelCommand_def)

lemma storeExample_100: "get storeExample 100 = Some sessionExample"
  by (simp add: storeExample_def get_def)

lemma sessionExample_fields:
  "getField sessionExample ''userId'' = JNum 1"
  "getField sessionExample ''formats'' = JFormats [candidateBig, candidateSmall]"
  "getField sessionExample ''title'' = JStr ''T''"
  "getField sessionExample ''formatMessageId'' = JNum 11"
  by (simp_all add: sessionExample_def getField_def)

text \<open>The theorem in chat 100, whose session user 1 owns, at a call by user 2, who is
  allowed: neither choice changes anything.\<close>

theorem owner_mismatch_witness:
  "get storeExample (chat_id otherCtx) = Some sessionExample
   \<and> getField sessionExample ''userId'' \<noteq> userIdVal (from_id otherCtx)
   \<and> isAuthorized cfgExample (from_id otherCtx)
   \<and> onTypeAction cfgExample jsonParseExample typeEnvExample storeExample otherCtx Video
       = (storeExample, [AnswerCbQuery ''No active request. Send a link first.'' True])
   \<and> onFmtAction cfgExample fmtEnvExample storeExample (newQueue 2) otherCtx Video 1
       = (storeExample, newQueue 2, [AnswerCbQuery ''Request expired. Send the link again.'' True])"
proof -
  have s: "get storeExample (chat_id otherCtx) = Some sessionExample"
    by (simp add: otherCtx_def storeExample_100)
  have o: "getField sessionExample ''userId'' \<noteq> userIdVal (from_id otherCtx)"
    by (simp add: sessionExample_fields otherCtx_def userIdVal_def)
  have a: "isAuthorized cfgExample (from_id otherCtx)"
    by (simp add: isAuthorized_def cfgExample_def otherCtx_def)
  from owner_mismatch [OF s o, of cfgExample jsonParseExample typeEnvExample Video fmtEnvExample
      "newQueue 2" 1] a
  have "onTypeAction cfgExample jsonParseExample typeEnvExample storeExample otherCtx Video
       = (storeExample, [AnswerCbQuery ''No active request. Send a link first.'' True])"
    and "onFmtAction cfgExample fmtEnvExample storeExample (newQueue 2) otherCtx Video 1
       = (storeExample, newQueue 2, [AnswerCbQuery ''Request expired. Send the link again.'' True])"
    by simp_all
  with s o a show ?thesis by blast
qed

text \<open>
  C1 as stated fails. The Cancel button deletes the session of user 1 at a call by user
  3, who is not even allowed; the \<^verbatim>\<open>/cancel\<close> command does so at a call by user 2; and a
  URL submitted by user 2 replaces the session of user 1 by one that user 2 owns.
\<close>

theorem owner_mismatch_counterexample:
  "get storeExample 100 = Some sessionExample
   \<and> getField sessionExample ''userId'' = JNum 1
   \<and> userIdVal (from_id strangerCtx) = JNum 3 \<and> userIdVal (from_id otherCtx) = JNum 2
   \<and> \<not> isAuthorized cfgExample (from_id strangerCtx)
   \<and> get (fst (onCancelAction storeExample strangerCtx)) 100 = None
   \<and> get (fst (onCancelCommand cfgExample storeExample otherCtx)) 100 = None
   \<and> map_option (\<lambda>s. getField s ''userId'')
        (get (fst (onText cfgExample 5 40 storeExample otherCtx ''https://example.org/w'')) 100)
       = Some (JNum 2)"
proof -
  have a: "isAuthorized cfgExample (from_id otherCtx)"
    by (simp add: isAuthorized_def cfgExample_def otherCtx_def)
  have u: "sanitizeUrl ''https://example.org/w'' = Some ''https://example.org/w''"
    by code_simp
  have "get (fst (onText cfgExample 5 40 storeExample otherCtx ''https://example.org/w'')) (chat_id otherCtx)
        = Some [''createdAt'' \<mapsto> JNum 5, ''url'' \<mapsto> JStr ''https://example.org/w'',
                ''userId'' \<mapsto> userIdVal (from_id otherCtx),
                ''selectionMessageId'' \<mapsto> JNum (of_int 40), ''formatMessageId'' \<mapsto> JNull]"
    by (rule onText_replaces [OF a u])
  then have t: "map_option (\<lambda>s. getField s ''userId'')
        (get (fst (onText cfgExample 5 40 storeExample otherCtx ''https://example.org/w'')) 100)
       = Some (JNum 2)"
    by (simp add: otherCtx_def getField_def userIdVal_def)
  have "get (fst (onCancelAction storeExample strangerCtx)) 100 = None"
    by (simp add: onCancelAction_def delete_def get_def strangerCtx_def)
  moreover have "get (fst (onCancelCommand cfgExample storeExample otherCtx)) 100 = None"
    using a by (simp add: onCancelCommand_def delete_def get_def otherCtx_def)
  moreover have "\<not> isAuthorized cfgExample (from_id strangerCtx)"
    by (simp add: isAuthorized_def cfgExample_def strangerCtx_def)
  ultimately show ?thesis
    using t by (simp add: storeExample_100 sessionExample_fields userIdVal_def strangerCtx_def otherCtx_def)
qed

lemma jsOr_truthy: "jsOr a b = Some e \<Longrightarrow> e \<noteq> 0 \<Longrightarrow> truthy (jsOr a b)"
  by (simp add: truthy_def)

text \<open>
  C5. When the owner chooses a format whose known estimated size (\<^verbatim>\<open>estimatedSizeBytes\<close>,
  else \<^verbatim>\<open>approxSize\<close>) exceeds the configured maximum, the queue is returned untouched
  (no job is scheduled), the session keeps its candidate list and every other property
  but the id of the prompt message, and the last thing sent is a new prompt offering the
  same candidate list. The witness is the case of 2,000,000,000 bytes under a maximum of
  1900 MB.
\<close>

theorem oversize_choice_not_scheduled:
  assumes auth: "isAuthorized cfg (from_id c)"
    and sess: "get sessions (chat_id c) = Some session"
    and owner: "getField session ''userId'' = userIdVal (from_id c)"
    and fmts: "getField session ''formats'' = JFormats fs"
    and idx: "index < length fs"
    and est: "jsOr (estimatedSizeBytes (fs ! index)) (approxSize (fs ! index)) = Some e"
    and big: "e > MAX_FILE_SIZE_BYTES cfg"
  shows "\<exists>sessions' fx.
           onFmtAction cfg env sessions q c t index
             = (sessions', q,
                fx @ [Reply (if t = Audio then ''Pick a smaller audio bitrate:''
                             else ''Pick a smaller video quality:'')
                            (buildFormatKeyboard fs t)])
           \<and> get sessions' (chat_id c)
               = Some (session(''title'' \<mapsto> getField session ''title'',
                               ''formatMessageId'' \<mapsto> JNum (of_int (retryMessageId env))))
           \<and> (\<forall>k. k \<noteq> chat_id c \<longrightarrow> get sessions' k = get sessions k)"
proof -
  from big MAX_FILE_SIZE_BYTES_nonneg [of cfg] have "e \<noteq> 0" by auto
  with est have tr: "truthy (jsOr (estimatedSizeBytes (fs ! index)) (approxSize (fs ! index)))"
    by (rule jsOr_truthy)
  from fmts idx have fa: "formatAt session index = Some (fs ! index)"
    by (simp add: formatAt_def)
  from idx have ne: "fs \<noteq> []" by auto
  from sess have raw_sess: "sessions (chat_id c) = Some session" by (simp add: get_def)
  let ?s' = "session(''title'' \<mapsto> getField session ''title'',
                     ''formatMessageId'' \<mapsto> JNum (of_int (retryMessageId env)))"
  let ?fx = "AnswerCbQuery (''Selected '' @ displayLabel (fs ! index)) False
             # (if jsTruthy (getField session ''formatMessageId'')
                then [DeleteMessage (chat_id c) (getField session ''formatMessageId'')] else [])
             @ [Reply (''Selected option is larger than '' @ showNat (MAX_FILE_SIZE_MB cfg)
                        @ '' MB. Please pick a smaller choice.'') []]"
  have "onFmtAction cfg env sessions q c t index
        = (sessions(chat_id c \<mapsto> ?s'), q,
           ?fx @ [Reply (if t = Audio then ''Pick a smaller audio bitrate:''
                         else ''Pick a smaller video quality:'')
                        (buildFormatKeyboard fs t)])"
    using auth sess owner fa fmts ne tr est big raw_sess
    by (simp add: onFmtAction_def update_def Let_def)
  moreover have "get (sessions(chat_id c \<mapsto> ?s')) (chat_id c) = Some ?s'"
    by (simp add: get_def)
  moreover have "\<forall>k. k \<noteq> chat_id c \<longrightarrow> get (sessions(chat_id c \<mapsto> ?s')) k = get sessions k"
    by (simp add: get_def)
  ultimately show ?thesis by blast
qed

lemma mathRound_of_int: "mathRound (of_int k) = k"
  unfolding mathRound_def by (rule floor_unique) simp_all

lemma MAX_FILE_SIZE_BYTES_eq: "MAX_FILE_SIZE_BYTES cfg = of_nat (MAX_FILE_SIZE_MB cfg * 1048576)"
proof -
  have e: "(of_nat (MAX_FILE_SIZE_MB cfg) * 1024 * 1024 :: rat)
           = of_int (int (MAX_FILE_SIZE_MB cfg * 1048576))"
    by simp
  have "MAX_FILE_SIZE_BYTES cfg = of_int (mathRound (of_int (int (MAX_FILE_SIZE_MB cfg * 1048576))))"
    unfolding MAX_FILE_SIZE_BYTES_def e ..
  also have "\<dots> = of_int (int (MAX_FILE_SIZE_MB cfg * 1048576))"
    unfolding mathRound_of_int ..
  finally show ?thesis by simp
qed

lemma limit_example: "MAX_FILE_SIZE_BYTES cfgExample = 1992294400"
  by (simp add: MAX_FILE_SIZE_BYTES_eq cfgExample_def)

text \<open>The theorem at the third end-to-end scenario: an estimated size of 2,000,000,000
  bytes under a maximum of 1900 MB (1,992,294,400 bytes).\<close>

theorem oversize_choice_witness:
  "isAuthorized cfgExample (from_id ownerCtx)
   \<and> jsOr (estimatedSizeBytes candidateBig) (approxSize candidateBig) = Some 2000000000
   \<and> MAX_FILE_SIZE_BYTES cfgExample = 1992294400
   \<and> fst (snd (onFmtAction cfgExample fmtEnvExample storeExample (newQueue 2) ownerCtx Video 0))
       = newQueue 2
   \<and> map_option (\<lambda>s. getField s ''formats'')
        (get (fst (onFmtAction cfgExample fmtEnvExample storeExample (newQueue 2) ownerCtx Video 0)) 100)
       = Some (JFormats [candidateBig, candidateSmall])
   \<and> last (snd (snd (onFmtAction cfgExample fmtEnvExample storeExample (newQueue 2) ownerCtx Video 0)))
       = Reply ''Pick a smaller video quality:''
           (buildFormatKeyboard [candidateBig, candidateSmall] Video)"
proof -
  have auth: "isAuthorized cfgExample (from_id ownerCtx)"
    by (simp add: isAuthorized_def cfgExample_def ownerCtx_def)
  have sess: "get storeExample (chat_id ownerCtx) = Some sessionExample"
    by (simp add: ownerCtx_def storeExample_100)
  have owner: "getField sessionExample ''userId'' = userIdVal (from_id ownerCtx)"
    by (simp add: sessionExample_fields ownerCtx_def userIdVal_def)
  have idx: "0 < length [candidateBig, candidateSmall]" by simp
  have est: "jsOr (estimatedSizeBytes ([candidateBig, candidateSmall] ! 0))
                  (approxSize ([candidateBig, candidateSmall] ! 0)) = Some 2000000000"
    by (simp add: candidateBig_def jsOr_def truthy_def)
  have big: "2000000000 > MAX_FILE_SIZE_BYTES cfgExample" by (simp add: limit_example)
  from oversize_choice_not_scheduled [OF auth sess owner sessionExample_fields(2) idx est big,
      of fmtEnvExample "newQueue 2" Video]
  obtain sessions' fx where
    r: "onFmtAction cfgExample fmtEnvExample storeExample (newQueue 2) ownerCtx Video 0
          = (sessions', newQueue 2,
             fx @ [Reply ''Pick a smaller video quality:''
                     (buildFormatKeyboard [candidateBig, candidateSmall] Video)])"
    and g: "get sessions' (chat_id ownerCtx)
          = Some (sessionExample(''title'' \<mapsto> getField sessionExample ''title'',
                    ''formatMessageId'' \<mapsto> JNum (of_int (retryMessageId fmtEnvExample))))"
    by auto
  from g have f: "map_option (\<lambda>s. getField s ''formats'') (get sessions' 100)
       = Some (JFormats [candidateBig, candidateSmall])"
    using sessionExample_fields(2) by (simp add: ownerCtx_def getField_def)
  from est have est': "jsOr (estimatedSizeBytes candidateBig) (approxSize candidateBig) = Some 2000000000"
    by simp
  show ?thesis
    unfolding r using auth est' limit_example f by simp
qed

section \<open>Proofs: the download job\<close>

lemma downloadTask_tool_fails:
  assumes "ensureDirOk env" and "toolRun env = Inl e"
  shows "downloadTask cfg env j
         = (Rejected e,
            [EditMessageText (job_chatId j) (job_statusMessageId j) ''Preparing download...'',
             EnsureDir (DOWNLOAD_TEMP_DIR cfg @ ''/'' @ jobId env),
             EditMessageText (job_chatId j) (job_statusMessageId j) ''Downloading source...'',
             RunYtDlp (buildArgs cfg env
                         [''--no-progress'', ''--output'',
                          DOWNLOAD_TEMP_DIR cfg @ ''/'' @ jobId env @ ''/%(id)s.%(ext)s'',
                          ''-f'', fmt_id (job_format j), strOf (job_url j)])])"
  using assms by (simp add: downloadTask_def downloadMedia_def Let_def)

lemma downloadTask_no_file:
  assumes "ensureDirOk env" and "toolRun env = Inr out" and "readdirResult env = Inr files"
    and "pickDownloadedFile files = None"
  shows "downloadTask cfg env j
         = (Rejected DownloadedFileNotFound,
            [EditMessageText (job_chatId j) (job_statusMessageId j) ''Preparing download...'',
             EnsureDir (DOWNLOAD_TEMP_DIR cfg @ ''/'' @ jobId env),
             EditMessageText (job_chatId j) (job_statusMessageId j) ''Downloading source...'',
             RunYtDlp (buildArgs cfg env
                         [''--no-progress'', ''--output'',
                          DOWNLOAD_TEMP_DIR cfg @ ''/'' @ jobId env @ ''/%(id)s.%(ext)s'',
                          ''-f'', fmt_id (job_format j), strOf (job_url j)]),
             Readdir (DOWNLOAD_TEMP_DIR cfg @ ''/'' @ jobId env)])"
  using assms by (simp add: downloadTask_def downloadMedia_def Let_def)

lemma downloadTask_cleans_after_download:
  assumes "downloadMedia cfg env (strOf (job_url j)) (fmt_id (job_format j)) (job_type j)
             (strOf (job_title j))
             (\<lambda>t. [EditMessageText (job_chatId j) (job_statusMessageId j) t])
             (targetFileName (job_format j)) = (Inr d, fx)"
  shows "Remove (dl_workingDir d) \<in> set (snd (downloadTask cfg env j))"
  using assms
  by (simp add: downloadTask_def Let_def cleanup_def split: option.splits)

lemma onJobSettled_rejected:
  "onJobSettled retry sessions j (Rejected e)
   = (sessions, [LogError ''Download job failed'',
                 EditMessageText (job_chatId j) (job_statusMessageId j)
                   ''Failed. Please try another format or send a new link.''])"
  by (simp add: onJobSettled_def)

text \<open>
  C2 fails on the code. The job of the small format runs and the external tool exits
  with code 1: the task rejects, the \<^verbatim>\<open>.catch\<close> handler logs and edits the status message
  to the generic failure text, and the store is returned as it was: the session of chat
  100 is still there.
\<close>

theorem execution_failure_keeps_session:
  "fst (downloadTask cfgExample envToolFails jobExample) = Rejected (ToolExit 1)
   \<and> onJobSettled 32 storeDownloading jobExample (fst (downloadTask cfgExample envToolFails jobExample))
       = (storeDownloading,
          [LogError ''Download job failed'',
           EditMessageText 100 31 ''Failed. Please try another format or send a new link.''])
   \<and> get storeDownloading 100 = Some sessionDownloading"
proof -
  have r: "fst (downloadTask cfgExample envToolFails jobExample) = Rejected (ToolExit 1)"
    using downloadTask_tool_fails [of envToolFails "ToolExit 1" cfgExample jobExample]
    by (simp add: envToolFails_def)
  have c: "job_chatId jobExample = 100" "job_statusMessageId jobExample = 31"
    by (simp_all add: jobExample_def)
  have g: "get storeDownloading 100 = Some sessionDownloading"
    by (simp add: storeDownloading_def get_def)
  show ?thesis
    unfolding r onJobSettled_rejected c using g by simp
qed

text \<open>
  C3 fails on the code. When the external tool exits with code 1, and when it leaves no
  output file, the working directory has been created and the task rejects without any
  attempt to remove it: \<^verbatim>\<open>downloadMedia\<close> threw before \<^verbatim>\<open>download\<close> was assigned, so the
  \<^verbatim>\<open>finally\<close> block skips \<^verbatim>\<open>cleanup\<close>.
\<close>

theorem failed_download_skips_cleanup:
  "downloadTask cfgExample envToolFails jobExample
     = (Rejected (ToolExit 1),
        [EditMessageText 100 31 ''Preparing download...'',
         EnsureDir ''/tmp/yttelbot/job-1'',
         EditMessageText 100 31 ''Downloading source...'',
         RunYtDlp [''--ignore-config'', ''--no-warnings'', ''--no-playlist'', ''--no-progress'',
                   ''--output'', ''/tmp/yttelbot/job-1/%(id)s.%(ext)s'', ''-f'', ''18'',
                   ''https://example.org/v'']])
   \<and> downloadTask cfgExample envNoFile jobExample
     = (Rejected DownloadedFileNotFound,
        [EditMessageText 100 31 ''Preparing download...'',
         EnsureDir ''/tmp/yttelbot/job-2'',
         EditMessageText 100 31 ''Downloading source...'',
         RunYtDlp [''--ignore-config'', ''--no-warnings'', ''--no-playlist'', ''--no-progress'',
                   ''--output'', ''/tmp/yttelbot/job-2/%(id)s.%(ext)s'', ''-f'', ''18'',
                   ''https://example.org/v''],
         Readdir ''/tmp/yttelbot/job-2''])
   \<and> Remove ''/tmp/yttelbot/job-1'' \<notin> set (snd (downloadTask cfgExample envToolFails jobExample))
   \<and> Remove ''/tmp/yttelbot/job-2'' \<notin> set (snd (downloadTask cfgExample envNoFile jobExample))"
proof -
  have p: "pickDownloadedFile [''abc.mp4.part''] = None" by code_simp
  have a: "downloadTask cfgExample envToolFails jobExample
     = (Rejected (ToolExit 1),
        [EditMessageText 100 31 ''Preparing download...'',
         EnsureDir ''/tmp/yttelbot/job-1'',
         EditMessageText 100 31 ''Downloading source...'',
         RunYtDlp [''--ignore-config'', ''--no-warnings'', ''--no-playlist'', ''--no-progress'',
                   ''--output'', ''/tmp/yttelbot/job-1/%(id)s.%(ext)s'', ''-f'', ''18'',
                   ''https://example.org/v'']])"
    using downloadTask_tool_fails [of envToolFails "ToolExit 1" cfgExample jobExample]
    by (simp add: envToolFails_def cfgExample_def jobExample_def candidateSmall_def
          buildArgs_def COMMON_ARGS_def strOf_def)
  have b: "downloadTask cfgExample envNoFile jobExample
     = (Rejected DownloadedFileNotFound,
        [EditMessageText 100 31 ''Preparing download...'',
         EnsureDir ''/tmp/yttelbot/job-2'',
         EditMessageText 100 31 ''Downloading source...'',
         RunYtDlp [''--ignore-config'', ''--no-warnings'', ''--no-playlist'', ''--no-progress'',
                   ''--output'', ''/tmp/yttelbot/job-2/%(id)s.%(ext)s'', ''-f'', ''18'',
                   ''https://example.org/v''],
         Readdir ''/tmp/yttelbot/job-2''])"
    using downloadTask_no_file [of envNoFile "[]" "[''abc.mp4.part'']" cfgExample jobExample] p
    by (simp add: envNoFile_def cfgExample_def jobExample_def candidateSmall_def
          buildArgs_def COMMON_ARGS_def strOf_def)
  show ?thesis unfolding a b by simp
qed

end
